theory Spec2Isabelle
  imports Main "HOL-Library.Char_ord" "HOL-Library.List_Lexorder" "HOL-Library.Option_ord"
    "HOL-Library.Word"
begin

section \<open>Plant monitor: a shallow embedding of plant\_mon.py\<close>

text \<open>
  The application is a Flask program over two SQLite tables. The embedding keeps the
  tables as lists of rows in rowid order, every handler as a function from the store and
  the request to a response and the new store, and every exception of the source as a
  value of \<open>py_error\<close>.

  Strings are texts in UTF-8, as SQLite stores and compares them; the order on them is
  the bytewise lexicographic one (the BINARY collation). A Python string with an
  unpaired surrogate, which only an escape in a JSON body can produce, has no such text
  and is not a value of the model.
\<close>

subsection \<open>Python values\<close>

text \<open>The exceptions. \<open>ProgrammingError\<close> and \<open>IntegrityError\<close> are those of \<open>sqlite3\<close>:
  a parameter of a type that cannot be bound (\<open>InterfaceError\<close> before Python 3.11), and
  NULL for a column that is NOT NULL.\<close>

datatype py_error =
  OverflowError | TypeError | ValueError | AttributeError | ProgrammingError | IntegrityError

text \<open>
  A \<open>datetime\<close> value: \<open>wall\<close> is its own clock reading, in microseconds since
  0001-01-01T00:00:00; \<open>utcoffset\<close> is \<open>None\<close> for a naive value and the offset of its
  fixed-offset tzinfo (microseconds east of UTC) for an aware one. A \<open>timedelta\<close> is a
  number of microseconds.
\<close>

record datetime =
  wall :: int
  utcoffset :: "int option"

definition us_per_day :: int where
  "us_per_day = 86400000000"

text \<open>\<open>datetime.max\<close> is the last microsecond of 9999-12-31, day 3652059 of the calendar.\<close>

definition wall_limit :: int where
  "wall_limit = 3652059 * us_per_day"

text \<open>\<open>timedelta(days=n)\<close>: the constructor refuses more than 999999999 days.\<close>

definition timedelta_days :: "int \<Rightarrow> py_error + int" where
  "timedelta_days n =
     (if \<bar>n\<bar> > 999999999 then Inl OverflowError else Inr (n * us_per_day))"

text \<open>\<open>dt + td\<close>: the clock reading moves, the tzinfo stays; out of range raises.\<close>

definition dt_add :: "datetime \<Rightarrow> int \<Rightarrow> py_error + datetime" where
  "dt_add d td =
     (let w = wall d + td
      in if 0 \<le> w \<and> w < wall_limit then Inr (d\<lparr>wall := w\<rparr>) else Inl OverflowError)"

text \<open>\<open>a - b\<close>: between two aware values the UTC instants are subtracted, between two
  naive ones the clock readings; mixing them raises TypeError.\<close>

definition dt_sub :: "datetime \<Rightarrow> datetime \<Rightarrow> py_error + int" where
  "dt_sub a b =
     (case (utcoffset a, utcoffset b) of
        (None, None) \<Rightarrow> Inr (wall a - wall b)
      | (Some oa, Some ob) \<Rightarrow> Inr ((wall a - oa) - (wall b - ob))
      | _ \<Rightarrow> Inl TypeError)"

text \<open>\<open>timedelta.days\<close>: a timedelta is normalised with \<open>0 \<le> seconds < 86400\<close>, so the
  days are the floor of the duration.\<close>

definition td_days :: "int \<Rightarrow> int" where
  "td_days td = td div us_per_day"

text \<open>\<open>datetime.now(timezone.utc)\<close> for a clock reading in microseconds.\<close>

definition datetime_now_utc :: "int \<Rightarrow> datetime" where
  "datetime_now_utc clock = \<lparr>wall = clock, utcoffset = Some 0\<rparr>"

text \<open>\<open>dt.replace(tzinfo=timezone.utc)\<close>.\<close>

definition replace_tzinfo_utc :: "datetime \<Rightarrow> datetime" where
  "replace_tzinfo_utc d = d\<lparr>utcoffset := Some 0\<rparr>"

text \<open>A float of Python: the model does not look into it.\<close>

typedecl pyfloat

text \<open>
  The standard library's functions on strings and floats are parameters of the model:
  the theorems hold whatever they compute.
  \<^item> \<open>fromisoformat\<close> is \<open>datetime.fromisoformat\<close> on a string (\<open>Inl\<close> when it raises);
  \<^item> \<open>isoformat\<close> is \<open>datetime.isoformat\<close>;
  \<^item> \<open>int_of_str\<close> is \<open>int\<close> on a string, \<open>int_of_float\<close> is \<open>int\<close> on a float;
  \<^item> \<open>float_truth\<close> is the truth value of a float;
  \<^item> \<open>float_text\<close> is the text that SQLite stores for a float in a TEXT column;
  \<^item> \<open>lower\<close> is \<open>str.lower\<close>;
  \<^item> \<open>strftime_minute\<close> is \<open>dt.astimezone().strftime("%b %d, %Y %H:%M")\<close> and
    \<open>strftime_day\<close> is \<open>dt.astimezone().strftime("%b %d, %Y")\<close>.
\<close>

record pylib =
  fromisoformat :: "string \<Rightarrow> py_error + datetime"
  isoformat :: "datetime \<Rightarrow> string"
  int_of_str :: "string \<Rightarrow> py_error + int"
  int_of_float :: "pyfloat \<Rightarrow> py_error + int"
  float_truth :: "pyfloat \<Rightarrow> bool"
  float_text :: "pyfloat \<Rightarrow> string"
  lower :: "string \<Rightarrow> string"
  strftime_minute :: "datetime \<Rightarrow> string"
  strftime_day :: "datetime \<Rightarrow> string"

text \<open>\<open>str(n)\<close> for an integer, as the f-strings of \<open>human_delta\<close> print it.\<close>

function str_nat :: "nat \<Rightarrow> string" where
  "str_nat n =
     (if n < 10 then [char_of (48 + n)]
      else str_nat (n div 10) @ [char_of (48 + n mod 10)])"
  by pat_completeness auto
termination
  by (relation "measure (\<lambda>n. n)") auto

declare str_nat.simps [simp del]

definition str_int :: "int \<Rightarrow> string" where
  "str_int i = (if i < 0 then CHR ''-'' # str_nat (nat (- i)) else str_nat (nat i))"

text \<open>\<open>s.startswith(w)\<close>.\<close>

fun starts_with :: "string \<Rightarrow> string \<Rightarrow> bool" where
  "starts_with s [] = True"
| "starts_with [] (x # xs) = False"
| "starts_with (c # s) (x # xs) = (c = x \<and> starts_with s xs)"

text \<open>
  The whitespace of \<open>str.strip()\<close>, each character in UTF-8: the ASCII ones (tab, line
  feed, vertical tab, form feed, carriage return, the separators 0x1c to 0x1f, space),
  U+0085, U+00A0, U+1680, U+2000 to U+200A, U+2028, U+2029, U+202F, U+205F and U+3000.
\<close>

definition whitespace :: "string list" where
  "whitespace =
     [[CHR 0x09], [CHR 0x0A], [CHR 0x0B], [CHR 0x0C], [CHR 0x0D],
      [CHR 0x1C], [CHR 0x1D], [CHR 0x1E], [CHR 0x1F], [CHR 0x20],
      [CHR 0xC2, CHR 0x85], [CHR 0xC2, CHR 0xA0],
      [CHR 0xE1, CHR 0x9A, CHR 0x80],
      [CHR 0xE2, CHR 0x80, CHR 0x80], [CHR 0xE2, CHR 0x80, CHR 0x81],
      [CHR 0xE2, CHR 0x80, CHR 0x82], [CHR 0xE2, CHR 0x80, CHR 0x83],
      [CHR 0xE2, CHR 0x80, CHR 0x84], [CHR 0xE2, CHR 0x80, CHR 0x85],
      [CHR 0xE2, CHR 0x80, CHR 0x86], [CHR 0xE2, CHR 0x80, CHR 0x87],
      [CHR 0xE2, CHR 0x80, CHR 0x88], [CHR 0xE2, CHR 0x80, CHR 0x89],
      [CHR 0xE2, CHR 0x80, CHR 0x8A],
      [CHR 0xE2, CHR 0x80, CHR 0xA8], [CHR 0xE2, CHR 0x80, CHR 0xA9],
      [CHR 0xE2, CHR 0x80, CHR 0xAF],
      [CHR 0xE2, CHR 0x81, CHR 0x9F],
      [CHR 0xE3, CHR 0x80, CHR 0x80]]"

text \<open>Removing, as long as there is one, a member of \<open>ws\<close> at the head of the string.\<close>

function strip_left :: "string list \<Rightarrow> string \<Rightarrow> string" where
  "strip_left ws s =
     (case find (\<lambda>w. w \<noteq> [] \<and> starts_with s w) ws of
        None \<Rightarrow> s
      | Some w \<Rightarrow> strip_left ws (drop (length w) s))"
  by pat_completeness auto
termination
proof (relation "measure (\<lambda>(ws, s). length s)")
  show "wf (measure (\<lambda>(ws, s). length s))" by simp
next
  fix ws :: "string list" and s w :: string
  assume "find (\<lambda>w. w \<noteq> [] \<and> starts_with s w) ws = Some w"
  then have w: "w \<noteq> []" and sw: "starts_with s w"
    by (auto simp add: find_Some_iff)
  from w sw have "s \<noteq> []" by (cases s; cases w) auto
  with w show "((ws, drop (length w) s), (ws, s)) \<in> measure (\<lambda>(ws, s). length s)"
    by (cases s; cases w) auto
qed

declare strip_left.simps [simp del]

text \<open>\<open>str.strip()\<close>: the whitespace goes at both ends. At the end of a text in UTF-8
  the bytes of a character are the bytes of that character.\<close>

definition strip :: "string \<Rightarrow> string" where
  "strip s = rev (strip_left (map rev whitespace) (rev (strip_left whitespace s)))"

subsection \<open>The store\<close>

text \<open>
  The two tables. \<open>species\<close>, \<open>location\<close>, \<open>notes\<close> and \<open>note\<close> are nullable TEXT columns;
  the columns \<open>notes\<close> and \<open>note\<close> are the fields \<open>notes_col\<close> and \<open>note_col\<close>, and the two
  \<open>id\<close> columns are \<open>plants_id\<close> and \<open>water_logs_id\<close>.

  An integer that a request brings is bound to a statement as an integer of SQLite, of
  64 bits, and a Python integer beyond them is refused there with OverflowError.
  \<open>plant_id\<close>, which holds such identifiers, is a word of 64 bits, read as a signed
  integer. The rowids are given out by the store itself, one after the other; the model
  has them unbounded, so a table never runs out of them.
\<close>

record plant =
  plants_id :: int
  name :: string
  species :: "string option"
  location :: "string option"
  water_interval_days :: int
  notes_col :: "string option"
  created_at :: string
  updated_at :: string

record water_log =
  water_logs_id :: int
  plant_id :: "64 word"
  watered_at :: string
  note_col :: "string option"

text \<open>
  Rows are kept in rowid order. Both keys are AUTOINCREMENT: \<open>plants_seq\<close> and
  \<open>water_logs_seq\<close> are the largest rowids ever given out (the table
  \<open>sqlite_sequence\<close>), which a DELETE does not lower.
\<close>

record db =
  plants :: "plant list"
  water_logs :: "water_log list"
  plants_seq :: int
  water_logs_seq :: int

definition init_db :: db where
  "init_db = \<lparr>plants = [], water_logs = [], plants_seq = 0, water_logs_seq = 0\<rparr>"

text \<open>Binding a Python integer to a statement.\<close>

definition bind_int :: "int \<Rightarrow> py_error + int" where
  "bind_int i =
     (if - 9223372036854775808 \<le> i \<and> i < 9223372036854775808 then Inr i
      else Inl OverflowError)"

text \<open>\<open>SELECT * FROM plants WHERE id = ?\<close> with \<open>fetchone()\<close>.\<close>

definition select_plant :: "db \<Rightarrow> int \<Rightarrow> py_error + plant option" where
  "select_plant d i =
     (case bind_int i of
        Inl e \<Rightarrow> Inl e
      | Inr k \<Rightarrow> Inr (find (\<lambda>p. plants_id p = k) (plants d)))"

subsection \<open>Domain logic\<close>

definition now_iso :: "pylib \<Rightarrow> int \<Rightarrow> string" where
  "now_iso L clock = isoformat L (datetime_now_utc clock)"

text \<open>\<open>parse_iso\<close> catches every exception of the parser and returns \<open>None\<close>.\<close>

definition parse_iso :: "pylib \<Rightarrow> string \<Rightarrow> datetime option" where
  "parse_iso L s = (case fromisoformat L s of Inl e \<Rightarrow> None | Inr d \<Rightarrow> Some d)"

text \<open>
  \<open>human_delta\<close>: the argument is \<open>None\<close> or a datetime; \<open>clock\<close> is the reading of
  \<open>datetime.now(timezone.utc)\<close>. Any exception in the body gives the empty string.
\<close>

definition human_delta :: "int \<Rightarrow> datetime option \<Rightarrow> string" where
  "human_delta clock future_dt =
     (case future_dt of
        None \<Rightarrow> ''''
      | Some f \<Rightarrow>
          (case dt_sub f (datetime_now_utc clock) of
             Inl e \<Rightarrow> ''''
           | Inr diff \<Rightarrow>
               (let days = td_days diff
                in if \<bar>days\<bar> < 1 then ''today''
                   else if days > 0 then ''in '' @ str_int days @ ''d''
                   else str_int \<bar>days\<bar> @ ''d ago'')))"

text \<open>\<open>SELECT watered_at FROM water_logs WHERE plant_id = ? ORDER BY watered_at DESC
  LIMIT 1\<close>: the first row of the descending order, if there is one. The identifier is
  that of a row of the store.\<close>

definition get_last_watered :: "db \<Rightarrow> int \<Rightarrow> string option" where
  "get_last_watered d i =
     (case rev (sort (map watered_at (filter (\<lambda>w. sint (plant_id w) = i) (water_logs d)))) of
        [] \<Rightarrow> None
      | r # _ \<Rightarrow> Some r)"

text \<open>\<open>compute_next_watering\<close>: \<open>if last_iso\<close> is false for \<open>None\<close> and for the empty
  string; \<open>water_interval_days or 7\<close> replaces 0 by 7.\<close>

definition compute_next_watering :: "pylib \<Rightarrow> db \<Rightarrow> plant \<Rightarrow> py_error + string option" where
  "compute_next_watering L d plant_row =
     (let last_iso = get_last_watered d (plants_id plant_row);
          last = (case last_iso of
                    None \<Rightarrow> parse_iso L (created_at plant_row)
                  | Some s \<Rightarrow> if s \<noteq> [] then parse_iso L s
                              else parse_iso L (created_at plant_row))
      in case last of
           None \<Rightarrow> Inr None
         | Some l \<Rightarrow>
             (let interval = (if water_interval_days plant_row \<noteq> 0
                              then water_interval_days plant_row else 7)
              in case timedelta_days interval of
                   Inl e \<Rightarrow> Inl e
                 | Inr td \<Rightarrow>
                     (case dt_add l td of
                        Inl e \<Rightarrow> Inl e
                      | Inr next_dt \<Rightarrow> Inr (Some (isoformat L next_dt)))))"

subsection \<open>Requests and responses\<close>

text \<open>
  A form is \<open>request.form\<close>: \<open>form k\<close> is \<open>request.form.get(k)\<close>. A JSON value is \<open>null\<close>, a
  boolean, an integer, a float, a string, a list or a dictionary (an association list
  with distinct keys). The body of a JSON request is \<open>None\<close> when it is not JSON, which
  \<open>request.get_json(force=True)\<close> answers with the status 400.
\<close>

type_synonym form = "string \<Rightarrow> string option"

datatype jval =
    JNull
  | JBool bool
  | JInt int
  | JFloat pyfloat
  | JStr string
  | JList "jval list"
  | JDict "(string \<times> jval) list"

datatype http_method = GET | POST | PUT | DELETE

text \<open>The payload of \<open>api_log_water\<close>:
  \<open>request.get_json(force=True) if request.is_json else request.form\<close>.\<close>

datatype payload = JsonPayload "jval option" | FormPayload form

text \<open>\<open>url_for("index")\<close> and \<open>url_for("index", detail=plant_id)\<close>.\<close>

datatype target = Index | IndexDetail int

datatype json = JObject "(string \<times> json) list" | JString string | JNumber int | JTrue

text \<open>An entry of the API: the columns of the row with the two computed fields.\<close>

record api_entry =
  api_row :: plant
  last_watered :: "string option"
  next_watering :: "string option"

text \<open>
  \<open>Redirect\<close> is \<open>redirect(...)\<close>, \<open>Abort n\<close> is \<open>abort(n)\<close> (and the 400 of a body that is
  not JSON), \<open>Json j n\<close> is \<open>jsonify(j)\<close> with status \<open>n\<close>, \<open>JsonPlant\<close> and \<open>JsonPlants\<close> are
  \<open>jsonify\<close> of one entry and of a list of entries (status 200), and \<open>ServerError e\<close> is an
  exception that leaves the handler (a response 500); nothing is committed then.
\<close>

datatype response =
    Redirect target
  | Abort nat
  | Json json nat
  | JsonPlant api_entry
  | JsonPlants "api_entry list"
  | ServerError py_error

text \<open>Python truth of a value that is \<open>None\<close> or a string, and of a JSON value.\<close>

definition or_str :: "string option \<Rightarrow> string \<Rightarrow> string" where
  "or_str x dflt = (case x of None \<Rightarrow> dflt | Some s \<Rightarrow> if s = [] then dflt else s)"

fun truthy :: "pylib \<Rightarrow> jval option \<Rightarrow> bool" where
  "truthy L None = False"
| "truthy L (Some JNull) = False"
| "truthy L (Some (JBool b)) = b"
| "truthy L (Some (JInt n)) = (n \<noteq> 0)"
| "truthy L (Some (JFloat x)) = float_truth L x"
| "truthy L (Some (JStr s)) = (s \<noteq> [])"
| "truthy L (Some (JList xs)) = (xs \<noteq> [])"
| "truthy L (Some (JDict kvs)) = (kvs \<noteq> [])"

text \<open>\<open>x or dflt\<close>.\<close>

definition or_val :: "pylib \<Rightarrow> jval option \<Rightarrow> jval \<Rightarrow> jval" where
  "or_val L x dflt = (case x of None \<Rightarrow> dflt | Some v \<Rightarrow> if truthy L x then v else dflt)"

text \<open>\<open>data.get\<close>: only a dictionary has the method.\<close>

fun as_dict :: "jval \<Rightarrow> py_error + (string \<Rightarrow> jval option)" where
  "as_dict (JDict kvs) = Inr (map_of kvs)"
| "as_dict v = Inl AttributeError"

text \<open>\<open>v.strip()\<close>: only a string has the method.\<close>

fun strip_val :: "jval \<Rightarrow> py_error + string" where
  "strip_val (JStr s) = Inr (strip s)"
| "strip_val v = Inl AttributeError"

text \<open>\<open>int(v)\<close>.\<close>

fun py_int :: "pylib \<Rightarrow> jval \<Rightarrow> py_error + int" where
  "py_int L (JInt n) = Inr n"
| "py_int L (JBool b) = Inr (if b then 1 else 0)"
| "py_int L (JFloat x) = int_of_float L x"
| "py_int L (JStr s) = int_of_str L s"
| "py_int L v = Inl TypeError"

text \<open>The interval of a request: \<open>try: interval = int(v or dflt); interval = max(1,
  interval)\<close>, \<open>except Exception: interval = fallback\<close>.\<close>

definition request_interval :: "pylib \<Rightarrow> jval option \<Rightarrow> int \<Rightarrow> int \<Rightarrow> int" where
  "request_interval L v dflt fallback =
     (case py_int L (or_val L v (JInt dflt)) of
        Inl e \<Rightarrow> fallback
      | Inr interval \<Rightarrow> max 1 interval)"

text \<open>
  A value bound to a TEXT column: \<open>None\<close> is NULL, a boolean is the integer 1 or 0, an
  integer and a float are stored as their text, an integer beyond 64 bits is refused
  with OverflowError, and a list or a dictionary with ProgrammingError.
\<close>

fun bind_text :: "pylib \<Rightarrow> jval option \<Rightarrow> py_error + string option" where
  "bind_text L None = Inr None"
| "bind_text L (Some JNull) = Inr None"
| "bind_text L (Some (JBool b)) = Inr (Some (if b then ''1'' else ''0''))"
| "bind_text L (Some (JInt n)) =
     (case bind_int n of Inl e \<Rightarrow> Inl e | Inr k \<Rightarrow> Inr (Some (str_int k)))"
| "bind_text L (Some (JFloat x)) = Inr (Some (float_text L x))"
| "bind_text L (Some (JStr s)) = Inr (Some s)"
| "bind_text L (Some (JList xs)) = Inl ProgrammingError"
| "bind_text L (Some (JDict kvs)) = Inl ProgrammingError"

text \<open>The same for a column that is NOT NULL.\<close>

definition bind_text_not_null :: "pylib \<Rightarrow> jval option \<Rightarrow> py_error + string" where
  "bind_text_not_null L v =
     (case bind_text L v of
        Inl e \<Rightarrow> Inl e
      | Inr None \<Rightarrow> Inl IntegrityError
      | Inr (Some s) \<Rightarrow> Inr s)"

subsection \<open>Statements\<close>

text \<open>An AUTOINCREMENT key: one more than the largest rowid the table has ever had.\<close>

definition next_rowid :: "int \<Rightarrow> int list \<Rightarrow> int" where
  "next_rowid seq ids = fold max ids seq + 1"

text \<open>The statements take their parameters as they are bound.\<close>

definition insert_plant ::
  "db \<Rightarrow> string \<Rightarrow> string option \<Rightarrow> string option \<Rightarrow> int \<Rightarrow> string option \<Rightarrow> string \<Rightarrow> string \<Rightarrow> db"
where
  "insert_plant d n sp loc interval nts created updated =
     (let i = next_rowid (plants_seq d) (map plants_id (plants d))
      in d\<lparr>plants := plants d @
             [\<lparr>plants_id = i, name = n, species = sp, location = loc,
               water_interval_days = interval, notes_col = nts,
               created_at = created, updated_at = updated\<rparr>],
           plants_seq := i\<rparr>)"

definition update_plant_row ::
  "db \<Rightarrow> int \<Rightarrow> string \<Rightarrow> string option \<Rightarrow> string option \<Rightarrow> int \<Rightarrow> string option \<Rightarrow> string \<Rightarrow> db"
where
  "update_plant_row d i n sp loc interval nts updated =
     d\<lparr>plants := map (\<lambda>p. if plants_id p = i
                            then p\<lparr>name := n, species := sp, location := loc,
                                   water_interval_days := interval, notes_col := nts,
                                   updated_at := updated\<rparr>
                            else p) (plants d)\<rparr>"

definition delete_from_plants :: "db \<Rightarrow> int \<Rightarrow> db" where
  "delete_from_plants d i = d\<lparr>plants := filter (\<lambda>p. plants_id p \<noteq> i) (plants d)\<rparr>"

definition delete_from_water_logs :: "db \<Rightarrow> int \<Rightarrow> db" where
  "delete_from_water_logs d i =
     d\<lparr>water_logs := filter (\<lambda>w. sint (plant_id w) \<noteq> i) (water_logs d)\<rparr>"

definition insert_water_log :: "db \<Rightarrow> int \<Rightarrow> string \<Rightarrow> string option \<Rightarrow> db" where
  "insert_water_log d i w n =
     (let k = next_rowid (water_logs_seq d) (map water_logs_id (water_logs d))
      in d\<lparr>water_logs := water_logs d @
             [\<lparr>water_logs_id = k, plant_id = word_of_int i, watered_at = w, note_col = n\<rparr>],
           water_logs_seq := k\<rparr>)"

subsection \<open>Page handlers\<close>

text \<open>Every handler takes the library, the clock reading of the request, the store and
  the request, and returns the response with the store after the commit. The identifier
  of a route is a Python integer.\<close>

definition create_plant :: "pylib \<Rightarrow> int \<Rightarrow> db \<Rightarrow> form \<Rightarrow> response \<times> db" where
  "create_plant L clock d f =
     (let n = strip (or_str (f ''name'') '''')
      in if n = [] then (Redirect Index, d)
         else
           (let sp = strip (or_str (f ''species'') '''');
                loc = strip (or_str (f ''location'') '''');
                interval = request_interval L (map_option JStr (f ''water_interval_days'')) 7 7;
                nts = or_str (f ''notes'') '''';
                now = now_iso L clock
            in case bind_int interval of
                 Inl e \<Rightarrow> (ServerError e, d)
               | Inr k \<Rightarrow>
                   (Redirect Index,
                    insert_plant d n (Some sp) (Some loc) k (Some nts) now now)))"

definition update_plant :: "pylib \<Rightarrow> int \<Rightarrow> db \<Rightarrow> int \<Rightarrow> form \<Rightarrow> response \<times> db" where
  "update_plant L clock d i f =
     (case select_plant d i of
        Inl e \<Rightarrow> (ServerError e, d)
      | Inr None \<Rightarrow> (Abort 404, d)
      | Inr (Some row) \<Rightarrow>
          (let n = strip (or_str (f ''name'') '''');
               sp = strip (or_str (f ''species'') '''');
               loc = strip (or_str (f ''location'') '''');
               interval = request_interval L (map_option JStr (f ''water_interval_days'')) 7 7;
               nts = or_str (f ''notes'') '''';
               now = now_iso L clock
           in case bind_int interval of
                Inl e \<Rightarrow> (ServerError e, d)
              | Inr k \<Rightarrow>
                  (Redirect (IndexDetail i),
                   update_plant_row d i n (Some sp) (Some loc) k (Some nts) now)))"

definition delete_plant :: "db \<Rightarrow> int \<Rightarrow> response \<times> db" where
  "delete_plant d i =
     (case bind_int i of
        Inl e \<Rightarrow> (ServerError e, d)
      | Inr k \<Rightarrow> (Redirect Index, delete_from_water_logs (delete_from_plants d k) k))"

text \<open>
  The validation of \<open>log_water\<close> and \<open>api_log_water\<close> is
  \<open>try: _ = parse_iso(watered_at)\<close>, \<open>except Exception: watered_at = now_iso()\<close>.
  \<open>parse_iso\<close> returns for every argument (\<open>None\<close> where the parser raises, and for an
  argument that is not a string), so the outcome of the \<open>try\<close> block is always a normal
  one.
\<close>

definition try_parse_iso :: "pylib \<Rightarrow> jval \<Rightarrow> py_error + datetime option" where
  "try_parse_iso L v = Inr (case v of JStr s \<Rightarrow> parse_iso L s | _ \<Rightarrow> None)"

definition log_water :: "pylib \<Rightarrow> int \<Rightarrow> db \<Rightarrow> int \<Rightarrow> form \<Rightarrow> response \<times> db" where
  "log_water L clock d i f =
     (case select_plant d i of
        Inl e \<Rightarrow> (ServerError e, d)
      | Inr None \<Rightarrow> (Abort 404, d)
      | Inr (Some row) \<Rightarrow>
          (let watered = or_str (f ''watered_at'') (now_iso L clock);
               n = or_str (f ''note'') '''';
               watered' = (case try_parse_iso L (JStr watered) of
                             Inl e \<Rightarrow> now_iso L clock
                           | Inr _ \<Rightarrow> watered)
           in (Redirect (IndexDetail i), insert_water_log d i watered' (Some n))))"

definition log_water_backdate :: "pylib \<Rightarrow> int \<Rightarrow> db \<Rightarrow> int \<Rightarrow> form \<Rightarrow> response \<times> db" where
  "log_water_backdate L clock d i f =
     (case select_plant d i of
        Inl e \<Rightarrow> (ServerError e, d)
      | Inr None \<Rightarrow> (Abort 404, d)
      | Inr (Some row) \<Rightarrow>
          (let watered =
                 (case f ''date'' of
                    None \<Rightarrow> now_iso L clock
                  | Some date_str \<Rightarrow>
                      (case fromisoformat L date_str of
                         Inl e \<Rightarrow> now_iso L clock
                       | Inr dt \<Rightarrow> isoformat L (replace_tzinfo_utc dt)));
               n = or_str (f ''note'') ''backdated''
           in (Redirect (IndexDetail i), insert_water_log d i watered (Some n))))"

subsection \<open>JSON API\<close>

definition api_decorate :: "pylib \<Rightarrow> db \<Rightarrow> plant \<Rightarrow> py_error + api_entry" where
  "api_decorate L d p =
     (case compute_next_watering L d p of
        Inl e \<Rightarrow> Inl e
      | Inr nxt \<Rightarrow>
          Inr \<lparr>api_row = p, last_watered = get_last_watered d (plants_id p),
               next_watering = nxt\<rparr>)"

text \<open>The loop of the listing; an exception in one entry ends it.\<close>

fun api_decorate_all :: "pylib \<Rightarrow> db \<Rightarrow> plant list \<Rightarrow> py_error + api_entry list" where
  "api_decorate_all L d [] = Inr []"
| "api_decorate_all L d (r # rows) =
     (case api_decorate L d r of
        Inl e \<Rightarrow> Inl e
      | Inr p \<Rightarrow>
          (case api_decorate_all L d rows of
             Inl e \<Rightarrow> Inl e
           | Inr out \<Rightarrow> Inr (p # out)))"

text \<open>\<open>api_plants\<close>: GET lists with \<open>ORDER BY name\<close>, the BINARY collation; the other
  method of the route, POST, creates. The parameters of the INSERT are bound in their
  order: species, location, interval, notes.\<close>

definition api_plants ::
  "pylib \<Rightarrow> int \<Rightarrow> db \<Rightarrow> http_method \<Rightarrow> jval option \<Rightarrow> response \<times> db" where
  "api_plants L clock d m body =
     (if m = GET then
        (case api_decorate_all L d (sort_key name (plants d)) of
           Inl e \<Rightarrow> (ServerError e, d)
         | Inr out \<Rightarrow> (JsonPlants out, d))
      else
        (case body of
           None \<Rightarrow> (Abort 400, d)
         | Some json_value \<Rightarrow>
        (case as_dict json_value of
           Inl e \<Rightarrow> (ServerError e, d)
         | Inr data \<Rightarrow>
        (case strip_val (or_val L (data ''name'') (JStr '''')) of
           Inl e \<Rightarrow> (ServerError e, d)
         | Inr n \<Rightarrow>
             if n = [] then (Json (JObject [(''error'', JString ''name required'')]) 400, d)
             else
               (let interval = request_interval L (data ''water_interval_days'') 7 7;
                    nts = or_val L (data ''notes'') (JStr '''');
                    now = now_iso L clock
                in case bind_text L (data ''species'') of
                     Inl e \<Rightarrow> (ServerError e, d)
                   | Inr sp \<Rightarrow>
                (case bind_text L (data ''location'') of
                     Inl e \<Rightarrow> (ServerError e, d)
                   | Inr loc \<Rightarrow>
                (case bind_int interval of
                     Inl e \<Rightarrow> (ServerError e, d)
                   | Inr k \<Rightarrow>
                (case bind_text L (Some nts) of
                     Inl e \<Rightarrow> (ServerError e, d)
                   | Inr nts' \<Rightarrow>
                       (let d' = insert_plant d n sp loc k nts' now now
                        in (Json (JObject [(''id'', JNumber (plants_seq d'))]) 201,
                            d'))))))))))"

text \<open>\<open>data.get(k, dflt)\<close> bound to a TEXT column: the stored value when the key is
  absent.\<close>

definition get_text_default ::
  "pylib \<Rightarrow> jval option \<Rightarrow> string option \<Rightarrow> py_error + string option" where
  "get_text_default L v dflt = (case v of None \<Rightarrow> Inr dflt | Some x \<Rightarrow> bind_text L (Some x))"

text \<open>\<open>api_plant\<close>: GET, DELETE, and the other method of the route, PUT. The parameters
  of the UPDATE are bound in their order: species, location, interval, notes.\<close>

definition api_plant ::
  "pylib \<Rightarrow> int \<Rightarrow> db \<Rightarrow> int \<Rightarrow> http_method \<Rightarrow> jval option \<Rightarrow> response \<times> db" where
  "api_plant L clock d i m body =
     (case select_plant d i of
        Inl e \<Rightarrow> (ServerError e, d)
      | Inr None \<Rightarrow> (Json (JObject [(''error'', JString ''not found'')]) 404, d)
      | Inr (Some row) \<Rightarrow>
          if m = GET then
            (case api_decorate L d row of
               Inl e \<Rightarrow> (ServerError e, d)
             | Inr p \<Rightarrow> (JsonPlant p, d))
          else if m = DELETE then
            (Json (JObject [(''ok'', JTrue)]) 200,
             delete_from_water_logs (delete_from_plants d i) i)
          else
            (case body of
               None \<Rightarrow> (Abort 400, d)
             | Some json_value \<Rightarrow>
            (case as_dict json_value of
               Inl e \<Rightarrow> (ServerError e, d)
             | Inr data \<Rightarrow>
            (case strip_val (or_val L (data ''name'') (JStr (name row))) of
               Inl e \<Rightarrow> (ServerError e, d)
             | Inr n \<Rightarrow>
                 (let interval = request_interval L (data ''water_interval_days'')
                                   (water_interval_days row) (water_interval_days row);
                      now = now_iso L clock
                  in case get_text_default L (data ''species'') (species row) of
                       Inl e \<Rightarrow> (ServerError e, d)
                     | Inr sp \<Rightarrow>
                  (case get_text_default L (data ''location'') (location row) of
                       Inl e \<Rightarrow> (ServerError e, d)
                     | Inr loc \<Rightarrow>
                  (case bind_int interval of
                       Inl e \<Rightarrow> (ServerError e, d)
                     | Inr k \<Rightarrow>
                  (case get_text_default L (data ''notes'') (notes_col row) of
                       Inl e \<Rightarrow> (ServerError e, d)
                     | Inr nts \<Rightarrow>
                         (Json (JObject [(''ok'', JTrue)]) 200,
                          update_plant_row d i n sp loc k nts now)))))))))"

text \<open>\<open>payload.get\<close>: of the dictionary of a JSON body, or of the form.\<close>

fun payload_get :: "payload \<Rightarrow> (py_error + (string \<Rightarrow> jval option)) option" where
  "payload_get (JsonPayload None) = None"
| "payload_get (JsonPayload (Some v)) = Some (as_dict v)"
| "payload_get (FormPayload f) = Some (Inr (\<lambda>k. map_option JStr (f k)))"

text \<open>\<open>api_log_water\<close>. The timestamp and the note are bound in this order; the column
  \<open>watered_at\<close> is NOT NULL.\<close>

definition api_log_water :: "pylib \<Rightarrow> int \<Rightarrow> db \<Rightarrow> int \<Rightarrow> payload \<Rightarrow> response \<times> db" where
  "api_log_water L clock d i pl =
     (case select_plant d i of
        Inl e \<Rightarrow> (ServerError e, d)
      | Inr None \<Rightarrow> (Json (JObject [(''error'', JString ''not found'')]) 404, d)
      | Inr (Some row) \<Rightarrow>
          (case payload_get pl of
             None \<Rightarrow> (Abort 400, d)
           | Some (Inl e) \<Rightarrow> (ServerError e, d)
           | Some (Inr get) \<Rightarrow>
               (let watered = or_val L (get ''watered_at'') (JStr (now_iso L clock));
                    n = or_val L (get ''note'') (JStr '''');
                    watered' = (case try_parse_iso L watered of
                                  Inl e \<Rightarrow> JStr (now_iso L clock)
                                | Inr _ \<Rightarrow> watered)
                in case bind_text_not_null L (Some watered') of
                     Inl e \<Rightarrow> (ServerError e, d)
                   | Inr w \<Rightarrow>
                       (case bind_text L (Some n) of
                          Inl e \<Rightarrow> (ServerError e, d)
                        | Inr n' \<Rightarrow>
                            (Json (JObject [(''ok'', JTrue)]) 200,
                             insert_water_log d i w n')))))"

definition api_clear :: "db \<Rightarrow> response \<times> db" where
  "api_clear d =
     (let deleted_logs = int (length (water_logs d));
          deleted_plants = int (length (plants d))
      in (Json (JObject [(''status'', JString ''ok''),
                         (''deleted_plants'', JNumber deleted_plants),
                         (''deleted_logs'', JNumber deleted_logs)]) 200,
          d\<lparr>water_logs := [], plants := []\<rparr>))"

subsection \<open>The dashboard\<close>

text \<open>The NOCASE collation folds the 26 upper case letters of ASCII to lower case and
  compares the bytes.\<close>

definition nocase :: "string \<Rightarrow> string" where
  "nocase s =
     map (\<lambda>c. if 65 \<le> (of_char c :: nat) \<and> (of_char c :: nat) \<le> 90
               then char_of ((of_char c :: nat) + 32) else c) s"

text \<open>\<open>sub in s\<close> on strings.\<close>

fun contains :: "string \<Rightarrow> string \<Rightarrow> bool" where
  "contains [] sub = (sub = [])"
| "contains (c # s) sub = (starts_with (c # s) sub \<or> contains s sub)"

text \<open>
  An entry of the dashboard: the dictionary \<open>p\<close> of the loop. \<open>dash_row\<close> holds the
  columns, with \<open>created_at\<close> overwritten by its display form; \<open>p_next_watering\<close> is the
  key \<open>next_watering\<close>.
\<close>

record dash_entry =
  dash_row :: plant
  last_watered_display :: "string option"
  p_next_watering :: "string option"
  next_watering_dt :: "datetime option"
  next_due_human :: string

text \<open>\<open>parse_iso(x) if x else None\<close>.\<close>

definition parse_if :: "pylib \<Rightarrow> string option \<Rightarrow> datetime option" where
  "parse_if L x =
     (case x of None \<Rightarrow> None | Some s \<Rightarrow> if s \<noteq> [] then parse_iso L s else None)"

text \<open>The body of the loop over the rows. The display form of \<open>created_at\<close> calls
  \<open>astimezone\<close> on the result of \<open>parse_iso\<close>, which raises AttributeError on \<open>None\<close>;
  \<open>compute_next_watering\<close> is called on the dictionary after that assignment.\<close>

definition dash_decorate :: "pylib \<Rightarrow> int \<Rightarrow> db \<Rightarrow> plant \<Rightarrow> py_error + dash_entry" where
  "dash_decorate L clock d r =
     (let last_iso = get_last_watered d (plants_id r);
          last_dt = parse_if L last_iso;
          shown = map_option (strftime_minute L) last_dt;
          created = (if created_at r \<noteq> []
                     then (case parse_iso L (created_at r) of
                             None \<Rightarrow> Inl AttributeError
                           | Some c \<Rightarrow> Inr (strftime_day L c))
                     else Inr '''')
      in case created of
           Inl e \<Rightarrow> Inl e
         | Inr c \<Rightarrow>
             (let p = r\<lparr>created_at := c\<rparr>
              in case compute_next_watering L d p of
                   Inl e \<Rightarrow> Inl e
                 | Inr next_iso \<Rightarrow>
                     (let next_dt = parse_if L next_iso
                      in Inr \<lparr>dash_row = p, last_watered_display = shown,
                              p_next_watering = next_iso, next_watering_dt = next_dt,
                              next_due_human =
                                (case next_dt of
                                   None \<Rightarrow> ''''
                                 | Some x \<Rightarrow> human_delta clock (Some x))\<rparr>)))"

fun dash_decorate_all :: "pylib \<Rightarrow> int \<Rightarrow> db \<Rightarrow> plant list \<Rightarrow> py_error + dash_entry list" where
  "dash_decorate_all L clock d [] = Inr []"
| "dash_decorate_all L clock d (r # rows) =
     (case dash_decorate L clock d r of
        Inl e \<Rightarrow> Inl e
      | Inr p \<Rightarrow>
          (case dash_decorate_all L clock d rows of
             Inl e \<Rightarrow> Inl e
           | Inr out \<Rightarrow> Inr (p # out)))"

text \<open>\<open>matches\<close>: the text filter, then the status filter. \<open>next_watering_dt > now\<close>
  compares UTC instants, and raises TypeError on a naive value.\<close>

definition matches :: "pylib \<Rightarrow> int \<Rightarrow> string \<Rightarrow> string \<Rightarrow> dash_entry \<Rightarrow> py_error + bool" where
  "matches L clock q shw p =
     (if q \<noteq> [] \<and>
         \<not> (contains (lower L (name (dash_row p))) (lower L q) \<or>
            contains (lower L (or_str (species (dash_row p)) '''')) (lower L q) \<or>
            contains (lower L (or_str (location (dash_row p)) '''')) (lower L q))
      then Inr False
      else if shw = ''due'' then
        (case next_watering_dt p of
           None \<Rightarrow> Inr False
         | Some x \<Rightarrow>
             (case utcoffset x of
                None \<Rightarrow> Inl TypeError
              | Some off \<Rightarrow> Inr (\<not> (wall x - off > clock))))
      else Inr True)"

fun filter_matches ::
  "pylib \<Rightarrow> int \<Rightarrow> string \<Rightarrow> string \<Rightarrow> dash_entry list \<Rightarrow> py_error + dash_entry list" where
  "filter_matches L clock q shw [] = Inr []"
| "filter_matches L clock q shw (p # ps) =
     (case matches L clock q shw p of
        Inl e \<Rightarrow> Inl e
      | Inr b \<Rightarrow>
          (case filter_matches L clock q shw ps of
             Inl e \<Rightarrow> Inl e
           | Inr out \<Rightarrow> Inr (if b then p # out else out)))"

text \<open>
  \<open>index\<close>: the rows come with \<open>ORDER BY name COLLATE NOCASE\<close>. The result is what the
  template receives for the list: \<open>plants\<close>, \<open>total\<close> and \<open>plant_count\<close>. The detail panel
  of the page is not part of the model. \<open>q_arg\<close> and \<open>show_arg\<close> are
  \<open>request.args.get("q")\<close> and \<open>request.args.get("show")\<close>.
\<close>

record page =
  page_plants :: "dash_entry list"
  total :: nat
  plant_count :: nat

definition index :: "pylib \<Rightarrow> int \<Rightarrow> db \<Rightarrow> string option \<Rightarrow> string option \<Rightarrow> py_error + page" where
  "index L clock d q_arg show_arg =
     (let q = strip (or_str q_arg '''');
          shw = or_str show_arg ''all''
      in case dash_decorate_all L clock d (sort_key (\<lambda>p. nocase (name p)) (plants d)) of
           Inl e \<Rightarrow> Inl e
         | Inr ps \<Rightarrow>
             (case filter_matches L clock q shw ps of
                Inl e \<Rightarrow> Inl e
              | Inr filtered \<Rightarrow>
                  Inr \<lparr>page_plants = filtered, total = length ps,
                       plant_count = length filtered\<rparr>))"

subsection \<open>Reachable stores\<close>

text \<open>The stores the application can be in: the empty store after \<open>init_db\<close>, and the
  store after any handler that writes, for any library, clock and request.\<close>

inductive reachable :: "db \<Rightarrow> bool" where
  r_init: "reachable init_db"
| r_create_plant: "reachable d \<Longrightarrow> reachable (snd (create_plant L clock d f))"
| r_update_plant: "reachable d \<Longrightarrow> reachable (snd (update_plant L clock d i f))"
| r_delete_plant: "reachable d \<Longrightarrow> reachable (snd (delete_plant d i))"
| r_log_water: "reachable d \<Longrightarrow> reachable (snd (log_water L clock d i f))"
| r_log_water_backdate: "reachable d \<Longrightarrow> reachable (snd (log_water_backdate L clock d i f))"
| r_api_plants: "reachable d \<Longrightarrow> reachable (snd (api_plants L clock d m body))"
| r_api_plant: "reachable d \<Longrightarrow> reachable (snd (api_plant L clock d i m body))"
| r_api_log_water: "reachable d \<Longrightarrow> reachable (snd (api_log_water L clock d i pl))"
| r_api_clear: "reachable d \<Longrightarrow> reachable (snd (api_clear d))"


subsection \<open>The specification's words\<close>

text \<open>The stored timestamps of the events of a plant, in rowid order, and the
  identifiers of the plants.\<close>

definition plant_stamps :: "db \<Rightarrow> int \<Rightarrow> string list" where
  "plant_stamps d i = map watered_at (filter (\<lambda>w. sint (plant_id w) = i) (water_logs d))"

definition plant_ids :: "db \<Rightarrow> int list" where
  "plant_ids d = map plants_id (plants d)"

text \<open>The instant of a stored timestamp: the UTC instant of the aware datetime that it
  parses to, if it does.\<close>

definition utc_instant :: "datetime \<Rightarrow> int option" where
  "utc_instant x = map_option (\<lambda>off. wall x - off) (utcoffset x)"

definition stamp_instant :: "pylib \<Rightarrow> string \<Rightarrow> int option" where
  "stamp_instant L s = (case parse_iso L s of None \<Rightarrow> None | Some x \<Rightarrow> utc_instant x)"






text \<open>No event without its plant.\<close>

definition events_owned :: "db \<Rightarrow> bool" where
  "events_owned d = (\<forall>w \<in> set (water_logs d). sint (plant_id w) \<in> set (plant_ids d))"

text \<open>Every interval is at least one day.\<close>

definition intervals_positive :: "db \<Rightarrow> bool" where
  "intervals_positive d = (\<forall>p \<in> set (plants d). 1 \<le> water_interval_days p)"

text \<open>Every name is non-empty.\<close>

definition names_nonempty :: "db \<Rightarrow> bool" where
  "names_nonempty d = (\<forall>p \<in> set (plants d). name p \<noteq> [])"

subsection \<open>Sample values\<close>

text \<open>
  A library for the examples: it agrees with Python's on the timestamps of the tables
  (clock readings in microseconds since 0001-01-01, the server's zone being UTC) and on
  the other strings used below, which Python's parsers reject as this one does. The
  examples have no float.
\<close>

definition sample_stamps :: "(string \<times> datetime) list" where
  "sample_stamps =
     [(''2024-01-01T00:00:00+00:00'', \<lparr>wall = 63839664000000000, utcoffset = Some 0\<rparr>),
      (''2024-01-02T00:00:00+00:00'', \<lparr>wall = 63839750400000000, utcoffset = Some 0\<rparr>),
      (''2024-01-04T00:00:00+00:00'', \<lparr>wall = 63839923200000000, utcoffset = Some 0\<rparr>),
      (''2024-01-05T00:00:00+00:00'', \<lparr>wall = 63840009600000000, utcoffset = Some 0\<rparr>),
      (''2024-01-08T00:00:00+00:00'', \<lparr>wall = 63840268800000000, utcoffset = Some 0\<rparr>),
      (''2024-01-05'', \<lparr>wall = 63840009600000000, utcoffset = None\<rparr>),
      (''2024-01-01T23:00:00-05:00'',
         \<lparr>wall = 63839746800000000, utcoffset = Some (- 18000000000)\<rparr>)]"

definition sample_formats :: "(datetime \<times> string) list" where
  "sample_formats =
     [(\<lparr>wall = 63839664000000000, utcoffset = Some 0\<rparr>, ''2024-01-01T00:00:00+00:00''),
      (\<lparr>wall = 63839750400000000, utcoffset = Some 0\<rparr>, ''2024-01-02T00:00:00+00:00''),
      (\<lparr>wall = 63839923200000000, utcoffset = Some 0\<rparr>, ''2024-01-04T00:00:00+00:00''),
      (\<lparr>wall = 63840009600000000, utcoffset = Some 0\<rparr>, ''2024-01-05T00:00:00+00:00''),
      (\<lparr>wall = 63840268800000000, utcoffset = Some 0\<rparr>, ''2024-01-08T00:00:00+00:00''),
      (\<lparr>wall = 63840355200000000, utcoffset = Some 0\<rparr>, ''2024-01-09T00:00:00+00:00''),
      (\<lparr>wall = 63840351600000000, utcoffset = Some (- 18000000000)\<rparr>,
         ''2024-01-08T23:00:00-05:00'')]"

definition sample_lib :: pylib where
  "sample_lib =
     \<lparr>fromisoformat =
        (\<lambda>s. case map_of sample_stamps s of None \<Rightarrow> Inl ValueError | Some x \<Rightarrow> Inr x),
      isoformat =
        (\<lambda>x. case map_of sample_formats x of None \<Rightarrow> '''' | Some s \<Rightarrow> s),
      int_of_str = (\<lambda>s. if s = ''3'' then Inr 3 else Inl ValueError),
      int_of_float = (\<lambda>x. Inl ValueError),
      float_truth = (\<lambda>x. True),
      float_text = (\<lambda>x. ''''),
      lower = nocase,
      strftime_minute = (\<lambda>x. ''Jan 01, 2024 00:00''),
      strftime_day = (\<lambda>x. ''Jan 01, 2024'')\<rparr>"

text \<open>The clock at 2024-01-01T00:00:00Z and one day later.\<close>

definition new_year :: int where
  "new_year = 63839664000000000"

definition next_day :: int where
  "next_day = 63839750400000000"

definition fern :: plant where
  "fern =
     \<lparr>plants_id = 1, name = ''Fern'', species = Some '''', location = Some '''',
      water_interval_days = 3, notes_col = Some '''',
      created_at = ''2024-01-01T00:00:00+00:00'',
      updated_at = ''2024-01-01T00:00:00+00:00''\<rparr>"

text \<open>The store after the form \<open>name=Fern, water_interval_days=3\<close> at the first clock.\<close>

definition fern_db :: db where
  "fern_db = \<lparr>plants = [fern], water_logs = [], plants_seq = 1, water_logs_seq = 0\<rparr>"


text \<open>Two plants whose names differ in case, and events of both.\<close>

definition apple :: plant where
  "apple = fern\<lparr>name := ''apple'', water_interval_days := 7\<rparr>"

definition zebra :: plant where
  "zebra = fern\<lparr>plants_id := 2, name := ''Zebra'', water_interval_days := 7\<rparr>"

definition orchard_db :: db where
  "orchard_db = \<lparr>plants = [apple, zebra], water_logs = [], plants_seq = 2, water_logs_seq = 0\<rparr>"

definition garden_db :: db where
  "garden_db =
     orchard_db\<lparr>water_logs :=
                   [\<lparr>water_logs_id = 1, plant_id = 1,
                     watered_at = ''2024-01-02T00:00:00+00:00'', note_col = Some ''''\<rparr>,
                    \<lparr>water_logs_id = 2, plant_id = 2,
                     watered_at = ''2024-01-01T00:00:00+00:00'', note_col = Some ''''\<rparr>,
                    \<lparr>water_logs_id = 3, plant_id = 1,
                     watered_at = ''2024-01-01T23:00:00-05:00'', note_col = Some ''evening''\<rparr>,
                    \<lparr>water_logs_id = 4, plant_id = 2,
                     watered_at = ''2024-01-04T00:00:00+00:00'', note_col = Some ''''\<rparr>],
                 water_logs_seq := 4\<rparr>"

text \<open>The UTC instant that the sample library reads in a text (0 where it reads none).\<close>

definition sample_instant :: "string \<Rightarrow> int" where
  "sample_instant s = (case stamp_instant sample_lib s of None \<Rightarrow> 0 | Some t \<Rightarrow> t)"

text \<open>Requests. The first identifier that SQLite does not take is \<open>2 ^ 63\<close>.\<close>

definition fern_form :: form where
  "fern_form = map_of [(''name'', ''Fern''), (''water_interval_days'', ''3'')]"

definition no_form :: form where
  "no_form = (\<lambda>k. None)"

definition no_body :: "jval option" where
  "no_body = Some (JDict [])"

definition beyond_sqlite :: int where
  "beyond_sqlite = 9223372036854775808"

text \<open>The ideographic space U+3000, in UTF-8.\<close>

definition ideographic_space :: string where
  "ideographic_space = [CHR 0xE3, CHR 0x80, CHR 0x80]"

section \<open>Properties\<close>

subsection \<open>The sample library\<close>

lemma sample_fromisoformat:
  "fromisoformat sample_lib s =
     (case map_of sample_stamps s of None \<Rightarrow> Inl ValueError | Some x \<Rightarrow> Inr x)"
  by (simp add: sample_lib_def)

lemma sample_parse_iso: "parse_iso sample_lib s = map_of sample_stamps s"
  by (simp add: parse_iso_def sample_fromisoformat split: option.split)

lemma sample_isoformat:
  "isoformat sample_lib x = (case map_of sample_formats x of None \<Rightarrow> [] | Some s \<Rightarrow> s)"
  by (simp add: sample_lib_def)

lemma sample_now_iso: "now_iso sample_lib new_year = ''2024-01-01T00:00:00+00:00''"
  by (simp add: now_iso_def datetime_now_utc_def new_year_def sample_isoformat
      sample_formats_def)

lemma sample_now_iso_next: "now_iso sample_lib next_day = ''2024-01-02T00:00:00+00:00''"
  by (simp add: now_iso_def datetime_now_utc_def next_day_def sample_isoformat
      sample_formats_def)

subsection \<open>Last watered\<close>

lemma sorted_last_Max:
  fixes xs :: "('a::linorder) list"
  shows "sorted xs \<Longrightarrow> xs \<noteq> [] \<Longrightarrow> last xs = Max (set xs)"
proof (induction xs)
  case Nil
  then show ?case by simp
next
  case (Cons x xs)
  show ?case
  proof (cases "xs = []")
    case True
    then show ?thesis by simp
  next
    case False
    with Cons have ih: "last xs = Max (set xs)" by simp
    from False obtain y where y: "y \<in> set xs" by (cases xs) auto
    with Cons.prems have "x \<le> y" by simp
    also from y have "y \<le> Max (set xs)" by simp
    finally have "x \<le> Max (set xs)" .
    with False ih show ?thesis by (simp add: max_absorb2)
  qed
qed

lemma first_of_descending:
  fixes S :: "('a::linorder) list"
  shows "(case rev (sort S) of [] \<Rightarrow> None | r # _ \<Rightarrow> Some r) =
         (if S = [] then None else Some (Max (set S)))"
proof (cases "S = []")
  case True
  then show ?thesis by simp
next
  case False
  then have ne: "sort S \<noteq> []" by (metis length_sort length_0_conv)
  then obtain ys where ys: "sort S = ys @ [last (sort S)]"
    by (metis append_butlast_last_id)
  have "rev (sort S) = last (sort S) # rev ys"
    by (subst ys) simp
  moreover have "last (sort S) = Max (set S)"
    using sorted_last_Max [of "sort S"] ne by simp
  ultimately show ?thesis using False by simp
qed

lemma get_last_watered_stamps:
  "get_last_watered d i =
     (if plant_stamps d i = [] then None else Some (Max (set (plant_stamps d i))))"
  unfolding get_last_watered_def plant_stamps_def by (rule first_of_descending)

text \<open>
  C10. The last-watered lookup returns nothing for a plant without events, and otherwise
  the stored \<open>watered_at\<close> text of the plant that is greatest in the lexicographic order
  of the stored text. It is the chronologically latest event for every reading
  \<open>instant\<close> of the texts whose order the text order follows on the stored timestamps
  of the plant, as it does when they share one uniform UTC representation.
\<close>

theorem get_last_watered_greatest_text:
  fixes instant :: "string \<Rightarrow> int"
  shows "(plant_stamps d i = [] \<longrightarrow> get_last_watered d i = None) \<and>
         (plant_stamps d i \<noteq> [] \<longrightarrow>
            get_last_watered d i = Some (Max (set (plant_stamps d i))) \<and>
            Max (set (plant_stamps d i)) \<in> set (plant_stamps d i) \<and>
            (\<forall>s \<in> set (plant_stamps d i). s \<le> Max (set (plant_stamps d i))) \<and>
            ((\<forall>s \<in> set (plant_stamps d i). \<forall>t \<in> set (plant_stamps d i).
                 s \<le> t \<longrightarrow> instant s \<le> instant t) \<longrightarrow>
             (\<forall>s \<in> set (plant_stamps d i).
                 instant s \<le> instant (Max (set (plant_stamps d i))))))"
proof -
  let ?S = "set (plant_stamps d i)"
  have fin: "finite ?S" by simp
  {
    assume ne: "plant_stamps d i \<noteq> []"
    then have ne': "?S \<noteq> {}" by simp
    have mem: "Max ?S \<in> ?S" using fin ne' by (rule Max_in)
    have ub: "\<forall>s \<in> ?S. s \<le> Max ?S" using fin by simp
    have "get_last_watered d i = Some (Max ?S)"
      using ne by (simp add: get_last_watered_stamps)
    with mem ub have
      "get_last_watered d i = Some (Max ?S) \<and> Max ?S \<in> ?S \<and> (\<forall>s \<in> ?S. s \<le> Max ?S) \<and>
       ((\<forall>s \<in> ?S. \<forall>t \<in> ?S. s \<le> t \<longrightarrow> instant s \<le> instant t) \<longrightarrow>
        (\<forall>s \<in> ?S. instant s \<le> instant (Max ?S)))"
      by blast
  }
  then show ?thesis by (simp add: get_last_watered_stamps)
qed

text \<open>In the garden the second plant has two events in one representation, and the
  later one is returned; a plant without events has no last watering.\<close>

theorem get_last_watered_greatest_text_witness:
  "plant_stamps garden_db 2 = [''2024-01-01T00:00:00+00:00'', ''2024-01-04T00:00:00+00:00''] \<and>
   get_last_watered garden_db 2 = Some ''2024-01-04T00:00:00+00:00'' \<and>
   sample_instant ''2024-01-01T00:00:00+00:00'' \<le> sample_instant ''2024-01-04T00:00:00+00:00'' \<and>
   plant_stamps garden_db 3 = [] \<and> get_last_watered garden_db 3 = None"
proof -
  have s2: "plant_stamps garden_db 2 =
              [''2024-01-01T00:00:00+00:00'', ''2024-01-04T00:00:00+00:00'']"
    by (simp add: plant_stamps_def garden_db_def orchard_db_def)
  have s3: "plant_stamps garden_db 3 = []"
    by (simp add: plant_stamps_def garden_db_def orchard_db_def)
  have m: "Max (set (plant_stamps garden_db 2)) = ''2024-01-04T00:00:00+00:00''"
    by (simp add: s2)
  have i1: "sample_instant ''2024-01-01T00:00:00+00:00'' = 63839664000000000"
    by (simp add: sample_instant_def stamp_instant_def sample_parse_iso sample_stamps_def
        utc_instant_def)
  have i4: "sample_instant ''2024-01-04T00:00:00+00:00'' = 63839923200000000"
    by (simp add: sample_instant_def stamp_instant_def sample_parse_iso sample_stamps_def
        utc_instant_def)
  have mono: "\<forall>s \<in> set (plant_stamps garden_db 2). \<forall>t \<in> set (plant_stamps garden_db 2).
                s \<le> t \<longrightarrow> sample_instant s \<le> sample_instant t"
    by (simp add: s2 i1 i4)
  from get_last_watered_greatest_text [of garden_db 2 sample_instant] s2 m mono
  have "get_last_watered garden_db 2 = Some ''2024-01-04T00:00:00+00:00'' \<and>
        (\<forall>s \<in> set (plant_stamps garden_db 2).
           sample_instant s \<le> sample_instant ''2024-01-04T00:00:00+00:00'')"
    by simp
  then have "get_last_watered garden_db 2 = Some ''2024-01-04T00:00:00+00:00'' \<and>
        sample_instant ''2024-01-01T00:00:00+00:00'' \<le>
          sample_instant ''2024-01-04T00:00:00+00:00''"
    by (simp add: s2)
  moreover from get_last_watered_greatest_text [of garden_db 3 sample_instant] s3
  have "get_last_watered garden_db 3 = None" by simp
  ultimately show ?thesis using s2 s3 by simp
qed

text \<open>
  With mixed representations the two orders part: of the two events of the first plant of the garden the
  one at 23:00 with offset -05:00 is the later instant (04:00 UTC of the next day), and
  the lookup returns the other.
\<close>

lemma get_last_watered_not_latest:
  "get_last_watered garden_db 1 = Some ''2024-01-02T00:00:00+00:00'' \<and>
   ''2024-01-01T23:00:00-05:00'' \<in> set (plant_stamps garden_db 1) \<and>
   sample_instant ''2024-01-02T00:00:00+00:00'' = 63839750400000000 \<and>
   sample_instant ''2024-01-01T23:00:00-05:00'' = 63839764800000000"
  by (simp add: get_last_watered_def plant_stamps_def garden_db_def orchard_db_def
      sample_instant_def stamp_instant_def sample_parse_iso sample_stamps_def
        utc_instant_def)

subsection \<open>Next watering\<close>










subsection \<open>Human delta\<close>

text \<open>What \<open>human_delta\<close> returns for an aware datetime: the days are the floor of the
  difference of the instants.\<close>

lemma human_delta_aware:
  "human_delta clock (Some \<lparr>wall = w, utcoffset = Some off\<rparr>) =
     (let days = (w - off - clock) div us_per_day
      in if days = 0 then ''today''
         else if 0 < days then ''in '' @ str_int days @ ''d''
         else str_int (- days) @ ''d ago'')"
  by (simp add: human_delta_def dt_sub_def datetime_now_utc_def td_days_def Let_def
      abs_if)

lemma floor_days_zero: "x div us_per_day = 0 \<longleftrightarrow> 0 \<le> x \<and> x < us_per_day"
  by (auto simp add: us_per_day_def div_eq_0_iff zdiv_eq_0_iff)

text \<open>It is \<open>today\<close> for a target of the coming 24 hours, and for no target in the past.\<close>

lemma human_delta_today_next_24h:
  assumes "0 \<le> w - off - clock" and "w - off - clock < us_per_day"
  shows "human_delta clock (Some \<lparr>wall = w, utcoffset = Some off\<rparr>) = ''today''"
  using assms by (simp add: human_delta_aware floor_days_zero)

lemma human_delta_past_days:
  assumes "w - off - clock < 0"
  shows "human_delta clock (Some \<lparr>wall = w, utcoffset = Some off\<rparr>) =
           str_int (- ((w - off - clock) div us_per_day)) @ ''d ago''"
proof -
  from assms have "(w - off - clock) div us_per_day < 0"
    by (simp add: us_per_day_def div_neg_pos_less0)
  then show ?thesis by (simp add: human_delta_aware Let_def)
qed

text \<open>
  C2. At the clock 2024-01-02T00:00:00Z the target 2024-01-01T23:59:59Z is one second in
  the past, less than one day from now; \<open>human_delta\<close> returns \<open>1d ago\<close> for it, not
  \<open>today\<close>. One second in the future is \<open>today\<close>.
\<close>

theorem human_delta_one_second_ago:
  "human_delta 63839750400000000
     (Some \<lparr>wall = 63839750399000000, utcoffset = Some 0\<rparr>) = ''1d ago'' \<and>
   human_delta 63839750400000000
     (Some \<lparr>wall = 63839750401000000, utcoffset = Some 0\<rparr>) = ''today''"
  by (simp add: human_delta_aware us_per_day_def str_int_def str_nat.simps char_of_def
      bit_iff_odd)

subsection \<open>Statements and the invariants of the store\<close>

lemma bind_int_Inr: "bind_int i = Inr k \<Longrightarrow> k = i"
  by (simp add: bind_int_def split: if_splits)

lemma bind_int_range:
  "bind_int i = Inr k \<longleftrightarrow> k = i \<and> - 9223372036854775808 \<le> i \<and> i < 9223372036854775808"
  by (auto simp add: bind_int_def)

lemma bind_int_error:
  "bind_int i = Inl e \<longleftrightarrow>
     e = OverflowError \<and> \<not> (- 9223372036854775808 \<le> i \<and> i < 9223372036854775808)"
  by (auto simp add: bind_int_def)

text \<open>A stored identifier is read back as it was bound, and no stored identifier is
  beyond the integers of SQLite.\<close>

lemma sint_bound:
  assumes "bind_int i = Inr k"
  shows "sint (word_of_int i :: 64 word) = i"
proof -
  from assms have "- (2 ^ 63) \<le> i" "i < 2 ^ 63" by (simp_all add: bind_int_range)
  then show ?thesis by (simp add: sint_sbintrunc' signed_take_bit_int_eq_self)
qed

lemma sint_in_range:
  "- 9223372036854775808 \<le> sint (w :: 64 word) \<and> sint w < 9223372036854775808"
  using sint_ge [of w] sint_lt [of w] by simp

lemma sint_not_unbound: "bind_int i = Inl e \<Longrightarrow> sint (w :: 64 word) \<noteq> i"
  using sint_in_range [of w] by (auto simp add: bind_int_error)

lemma select_plant_Some:
  "select_plant d i = Inr (Some row) \<Longrightarrow>
   row \<in> set (plants d) \<and> plants_id row = i \<and> bind_int i = Inr i"
  by (auto simp add: select_plant_def find_Some_iff bind_int_range split: sum.splits)

lemma select_plant_None:
  "select_plant d i = Inr None \<longleftrightarrow> bind_int i = Inr i \<and> i \<notin> set (plant_ids d)"
proof (cases "bind_int i")
  case (Inl e)
  then show ?thesis by (simp add: select_plant_def)
next
  case (Inr k)
  then have k: "k = i" by (rule bind_int_Inr)
  have "find (\<lambda>p. plants_id p = i) (plants d) = None \<longleftrightarrow> i \<notin> set (plant_ids d)"
    unfolding find_None_iff plant_ids_def by (simp add: image_iff) blast
  with Inr k show ?thesis by (simp add: select_plant_def)
qed

lemma select_plant_found:
  "i \<in> set (plant_ids d) \<Longrightarrow> bind_int i = Inr i \<Longrightarrow> \<exists>row. select_plant d i = Inr (Some row)"
proof -
  assume mem: "i \<in> set (plant_ids d)" and b: "bind_int i = Inr i"
  from mem have "find (\<lambda>p. plants_id p = i) (plants d) \<noteq> None"
    unfolding find_None_iff plant_ids_def by (simp add: image_iff) blast
  with b show ?thesis by (auto simp add: select_plant_def)
qed

lemma insert_plant_fields:
  "water_logs (insert_plant d n sp loc k nts c u) = water_logs d"
  "set (plants (insert_plant d n sp loc k nts c u)) =
     insert \<lparr>plants_id = next_rowid (plants_seq d) (map plants_id (plants d)), name = n,
             species = sp, location = loc, water_interval_days = k, notes_col = nts,
             created_at = c, updated_at = u\<rparr> (set (plants d))"
  by (simp_all add: insert_plant_def Let_def)

lemma update_plant_row_fields:
  "water_logs (update_plant_row d i n sp loc k nts u) = water_logs d"
  "map plants_id (plants (update_plant_row d i n sp loc k nts u)) = map plants_id (plants d)"
  by (simp_all add: update_plant_row_def)

lemma insert_water_log_fields:
  "plants (insert_water_log d i w n) = plants d"
  "water_logs (insert_water_log d i w n) =
     water_logs d @ [\<lparr>water_logs_id = next_rowid (water_logs_seq d)
                                        (map water_logs_id (water_logs d)),
                       plant_id = word_of_int i, watered_at = w, note_col = n\<rparr>]"
  by (simp_all add: insert_water_log_def Let_def)

lemma delete_fields:
  "plants (delete_from_water_logs (delete_from_plants d i) i) =
     filter (\<lambda>p. plants_id p \<noteq> i) (plants d)"
  "water_logs (delete_from_water_logs (delete_from_plants d i) i) =
     filter (\<lambda>w. sint (plant_id w) \<noteq> i) (water_logs d)"
  by (simp_all add: delete_from_water_logs_def delete_from_plants_def)

lemma events_owned_insert_plant:
  "events_owned d \<Longrightarrow> events_owned (insert_plant d n sp loc k nts c u)"
  by (simp add: events_owned_def plant_ids_def insert_plant_def Let_def)

lemma events_owned_update_plant_row:
  "events_owned d \<Longrightarrow> events_owned (update_plant_row d i n sp loc k nts u)"
  by (simp add: events_owned_def plant_ids_def update_plant_row_fields)

lemma events_owned_delete:
  "events_owned d \<Longrightarrow> events_owned (delete_from_water_logs (delete_from_plants d i) i)"
  unfolding events_owned_def plant_ids_def by (simp add: delete_fields image_iff) metis

lemma events_owned_insert_water_log:
  assumes "events_owned d" and "select_plant d i = Inr (Some row)"
  shows "events_owned (insert_water_log d i w n)"
proof -
  from select_plant_Some [OF assms(2)] have row: "row \<in> set (plants d)"
    and rid: "plants_id row = i" and b: "bind_int i = Inr i" by simp_all
  from row rid have "i \<in> set (plant_ids d)" by (auto simp add: plant_ids_def)
  with assms(1) sint_bound [OF b] show ?thesis
    by (simp add: events_owned_def plant_ids_def insert_water_log_fields)
qed

lemma request_interval_positive:
  "1 \<le> fallback \<Longrightarrow> 1 \<le> request_interval L v dflt fallback"
  by (simp add: request_interval_def split: sum.split)

lemma intervals_positive_insert_plant:
  "intervals_positive d \<Longrightarrow> 1 \<le> k \<Longrightarrow>
   intervals_positive (insert_plant d n sp loc k nts c u)"
  by (simp add: intervals_positive_def insert_plant_fields)

lemma intervals_positive_update_plant_row:
  "intervals_positive d \<Longrightarrow> 1 \<le> k \<Longrightarrow>
   intervals_positive (update_plant_row d i n sp loc k nts u)"
  by (auto simp add: intervals_positive_def update_plant_row_def)

lemma intervals_positive_delete:
  "intervals_positive d \<Longrightarrow>
   intervals_positive (delete_from_water_logs (delete_from_plants d i) i)"
  by (simp add: intervals_positive_def delete_fields)

lemma intervals_positive_insert_water_log:
  "intervals_positive d \<Longrightarrow> intervals_positive (insert_water_log d i w n)"
  by (simp add: intervals_positive_def insert_water_log_fields)

text \<open>The interval that is bound is the interval of the request.\<close>

lemma bound_interval_positive:
  "bind_int (request_interval L v dflt fallback) = Inr k \<Longrightarrow> 1 \<le> fallback \<Longrightarrow> 1 \<le> k"
  using request_interval_positive [of fallback L v dflt] by (auto dest: bind_int_Inr)

text \<open>Every handler keeps both invariants.\<close>

lemma create_plant_invariants:
  "events_owned d \<Longrightarrow> events_owned (snd (create_plant L clock d f))"
  "intervals_positive d \<Longrightarrow> intervals_positive (snd (create_plant L clock d f))"
  by (simp_all add: create_plant_def Let_def events_owned_insert_plant
      intervals_positive_insert_plant bound_interval_positive split: sum.split)

lemma update_plant_invariants:
  "events_owned d \<Longrightarrow> events_owned (snd (update_plant L clock d i f))"
  "intervals_positive d \<Longrightarrow> intervals_positive (snd (update_plant L clock d i f))"
  by (simp_all add: update_plant_def Let_def events_owned_update_plant_row
      intervals_positive_update_plant_row bound_interval_positive
      split: option.split sum.split)

lemma delete_plant_invariants:
  "events_owned d \<Longrightarrow> events_owned (snd (delete_plant d i))"
  "intervals_positive d \<Longrightarrow> intervals_positive (snd (delete_plant d i))"
  by (simp_all add: delete_plant_def events_owned_delete intervals_positive_delete
      split: sum.split)

lemma log_water_invariants:
  "events_owned d \<Longrightarrow> events_owned (snd (log_water L clock d i f))"
  "intervals_positive d \<Longrightarrow> intervals_positive (snd (log_water L clock d i f))"
  by (simp_all add: log_water_def Let_def events_owned_insert_water_log
      intervals_positive_insert_water_log split: option.split sum.split)

lemma log_water_backdate_invariants:
  "events_owned d \<Longrightarrow> events_owned (snd (log_water_backdate L clock d i f))"
  "intervals_positive d \<Longrightarrow> intervals_positive (snd (log_water_backdate L clock d i f))"
  by (simp_all add: log_water_backdate_def Let_def events_owned_insert_water_log
      intervals_positive_insert_water_log split: option.split sum.split)

lemma api_plants_invariants:
  "events_owned d \<Longrightarrow> events_owned (snd (api_plants L clock d m body))"
  "intervals_positive d \<Longrightarrow> intervals_positive (snd (api_plants L clock d m body))"
  by (simp_all add: api_plants_def Let_def events_owned_insert_plant
      intervals_positive_insert_plant bound_interval_positive
      split: sum.split option.split)

lemma api_plant_invariants:
  "events_owned d \<Longrightarrow> events_owned (snd (api_plant L clock d i m body))"
  "intervals_positive d \<Longrightarrow> intervals_positive (snd (api_plant L clock d i m body))"
proof -
  show "events_owned d \<Longrightarrow> events_owned (snd (api_plant L clock d i m body))"
    by (simp add: api_plant_def Let_def events_owned_update_plant_row events_owned_delete
        split: option.split sum.split)
  assume pos: "intervals_positive d"
  show "intervals_positive (snd (api_plant L clock d i m body))"
  proof (cases "select_plant d i")
    case (Inl e)
    with pos show ?thesis by (simp add: api_plant_def)
  next
    case (Inr found)
    show ?thesis
    proof (cases found)
      case None
      with Inr pos show ?thesis by (simp add: api_plant_def)
    next
      case (Some row)
      with Inr pos have "1 \<le> water_interval_days row"
        by (auto simp add: intervals_positive_def dest: select_plant_Some)
      with pos Inr Some show ?thesis
        by (simp add: api_plant_def Let_def intervals_positive_update_plant_row
            intervals_positive_delete bound_interval_positive
            split: sum.split option.split)
    qed
  qed
qed

lemma api_log_water_invariants:
  "events_owned d \<Longrightarrow> events_owned (snd (api_log_water L clock d i pl))"
  "intervals_positive d \<Longrightarrow> intervals_positive (snd (api_log_water L clock d i pl))"
proof -
  show "intervals_positive d \<Longrightarrow> intervals_positive (snd (api_log_water L clock d i pl))"
    by (simp add: api_log_water_def Let_def intervals_positive_insert_water_log
        split: option.split sum.split)
  assume owned: "events_owned d"
  show "events_owned (snd (api_log_water L clock d i pl))"
  proof (cases "select_plant d i")
    case (Inl e)
    with owned show ?thesis by (simp add: api_log_water_def)
  next
    case (Inr found)
    show ?thesis
    proof (cases found)
      case None
      with Inr owned show ?thesis by (simp add: api_log_water_def)
    next
      case (Some row)
      with Inr have "\<And>w n. events_owned (insert_water_log d i w n)"
        using owned by (simp add: events_owned_insert_water_log)
      with owned Inr Some show ?thesis
        by (simp add: api_log_water_def Let_def split: option.split sum.split)
    qed
  qed
qed

lemma api_clear_invariants:
  "events_owned (snd (api_clear d))" "intervals_positive (snd (api_clear d))"
  by (simp_all add: api_clear_def Let_def events_owned_def intervals_positive_def)

lemma reachable_invariants: "reachable d \<Longrightarrow> events_owned d \<and> intervals_positive d"
proof (induction rule: reachable.induct)
  case r_init
  show ?case by (simp add: init_db_def events_owned_def intervals_positive_def)
next
  case (r_create_plant d L clock f)
  then show ?case by (simp add: create_plant_invariants)
next
  case (r_update_plant d L clock i f)
  then show ?case by (simp add: update_plant_invariants)
next
  case (r_delete_plant d i)
  then show ?case by (simp add: delete_plant_invariants)
next
  case (r_log_water d L clock i f)
  then show ?case by (simp add: log_water_invariants)
next
  case (r_log_water_backdate d L clock i f)
  then show ?case by (simp add: log_water_backdate_invariants)
next
  case (r_api_plants d L clock m body)
  then show ?case by (simp add: api_plants_invariants)
next
  case (r_api_plant d L clock i m body)
  then show ?case by (simp add: api_plant_invariants)
next
  case (r_api_log_water d L clock i pl)
  then show ?case by (simp add: api_log_water_invariants)
next
  case (r_api_clear d)
  show ?case by (simp add: api_clear_invariants)
qed

text \<open>The interval of every plant of a reachable store is at least one day, so the
  default of \<open>compute_next_watering\<close> for an interval of 0 is never taken there.\<close>

lemma reachable_interval:
  "reachable d \<Longrightarrow> p \<in> set (plants d) \<Longrightarrow> 1 \<le> water_interval_days p"
  using reachable_invariants [of d] by (simp add: intervals_positive_def)

text \<open>The sample stores are reachable.\<close>

lemma strip_plain:
  "strip [] = []" "strip ''Fern'' = ''Fern''" "strip ''   '' = []"
  "strip ideographic_space = []"
  by (simp_all add: strip_def strip_left.simps whitespace_def ideographic_space_def)

lemma fern_db_created:
  "create_plant sample_lib new_year init_db fern_form = (Redirect Index, fern_db)"
  by (simp add: create_plant_def fern_form_def or_str_def strip_plain
      request_interval_def or_val_def sample_lib_def [THEN arg_cong, of int_of_str]
      sample_now_iso insert_plant_def next_rowid_def init_db_def fern_db_def fern_def Let_def
      bind_int_def)

lemma reachable_fern_db: "reachable fern_db"
  using r_create_plant [OF r_init, of sample_lib new_year fern_form]
  by (simp add: fern_db_created)

subsection \<open>Deleting a plant\<close>

text \<open>
  C5. After the page handler of delete, and after the API handler of delete on an
  existing plant, the events of the store are those of the store before whose plant is
  another one: none of them references the deleted identifier, and the events of the
  other plants are unchanged.
\<close>

theorem delete_removes_events:
  "water_logs (snd (delete_plant d i)) =
     filter (\<lambda>w. sint (plant_id w) \<noteq> i) (water_logs d) \<and>
   filter (\<lambda>w. sint (plant_id w) = i) (water_logs (snd (delete_plant d i))) = [] \<and>
   (select_plant d i = Inr (Some row) \<longrightarrow>
      fst (api_plant L clock d i DELETE body) = Json (JObject [(''ok'', JTrue)]) 200 \<and>
      water_logs (snd (api_plant L clock d i DELETE body)) =
        filter (\<lambda>w. sint (plant_id w) \<noteq> i) (water_logs d) \<and>
      filter (\<lambda>w. sint (plant_id w) = i)
        (water_logs (snd (api_plant L clock d i DELETE body))) = [])"
proof -
  have none: "filter (\<lambda>w. sint (plant_id w) = i)
                (filter (\<lambda>w. sint (plant_id w) \<noteq> i) (water_logs d)) = []"
    by (simp add: filter_empty_conv)
  have page: "water_logs (snd (delete_plant d i)) =
                filter (\<lambda>w. sint (plant_id w) \<noteq> i) (water_logs d)"
  proof (cases "bind_int i")
    case (Inl e)
    then have "\<forall>w \<in> set (water_logs d). sint (plant_id w) \<noteq> i"
      by (simp add: sint_not_unbound)
    then have "filter (\<lambda>w. sint (plant_id w) \<noteq> i) (water_logs d) = water_logs d"
      by (simp add: filter_id_conv)
    with Inl show ?thesis by (simp add: delete_plant_def)
  next
    case (Inr k)
    then have "k = i" by (rule bind_int_Inr)
    with Inr show ?thesis by (simp add: delete_plant_def delete_fields)
  qed
  have api: "select_plant d i = Inr (Some row) \<longrightarrow>
      fst (api_plant L clock d i DELETE body) = Json (JObject [(''ok'', JTrue)]) 200 \<and>
      water_logs (snd (api_plant L clock d i DELETE body)) =
        filter (\<lambda>w. sint (plant_id w) \<noteq> i) (water_logs d)"
    by (simp add: api_plant_def delete_fields)
  from none page api show ?thesis by simp
qed

text \<open>In the garden the first plant has the events 1 and 3, the second the events 2
  and 4.\<close>

theorem delete_removes_events_witness:
  "select_plant garden_db 1 = Inr (Some apple) \<and>
   map water_logs_id (water_logs garden_db) = [1, 2, 3, 4] \<and>
   map water_logs_id (water_logs (snd (delete_plant garden_db 1))) = [2, 4] \<and>
   map water_logs_id (water_logs (snd (api_plant sample_lib next_day garden_db 1 DELETE no_body)))
     = [2, 4]"
proof -
  have ex: "select_plant garden_db 1 = Inr (Some apple)"
    by (simp add: select_plant_def bind_int_def garden_db_def orchard_db_def apple_def
        zebra_def fern_def)
  have logs: "map water_logs_id
                (filter (\<lambda>w. sint (plant_id w) \<noteq> 1) (water_logs garden_db)) = [2, 4]"
    by (simp add: garden_db_def orchard_db_def)
  have all: "map water_logs_id (water_logs garden_db) = [1, 2, 3, 4]"
    by (simp add: garden_db_def orchard_db_def)
  from delete_removes_events [of garden_db 1 apple sample_lib next_day no_body] ex logs all
  show ?thesis by simp
qed

text \<open>
  C8 as it stands fails at the identifier \<open>2 ^ 63\<close>, which names no plant (the identifier
  of a route is any natural number of the URL): the SELECT of the API handler and the
  DELETE of the page handler cannot bind it, and both handlers end with OverflowError.
\<close>

theorem delete_beyond_sqlite_integer:
  "beyond_sqlite \<notin> set (plant_ids fern_db) \<and>
   delete_plant fern_db beyond_sqlite = (ServerError OverflowError, fern_db) \<and>
   api_plant sample_lib next_day fern_db beyond_sqlite DELETE no_body =
     (ServerError OverflowError, fern_db)"
  by (simp add: delete_plant_def api_plant_def select_plant_def bind_int_def beyond_sqlite_def
      plant_ids_def fern_db_def fern_def)

text \<open>
  C8, as amended. In a reachable store: for an identifier that SQLite can bind (a 64-bit signed
  integer) and that names no plant, the page handler of delete redirects to the
  dashboard and leaves the store as it is, and the API handler answers 404 with the
  error \<open>not found\<close> and leaves the store as it is; for an existing plant the page handler
  redirects, the API handler answers \<open>ok\<close>, and both leave the same store, in which the
  plant is gone; for an identifier that SQLite cannot bind both handlers end with
  OverflowError and leave the store as it is.
\<close>

theorem delete_missing_plant:
  assumes "reachable d"
  shows "(bind_int i = Inr i \<and> i \<notin> set (plant_ids d) \<longrightarrow>
            delete_plant d i = (Redirect Index, d) \<and>
            api_plant L clock d i DELETE body =
              (Json (JObject [(''error'', JString ''not found'')]) 404, d)) \<and>
         (bind_int i = Inr i \<and> i \<in> set (plant_ids d) \<longrightarrow>
            fst (delete_plant d i) = Redirect Index \<and>
            fst (api_plant L clock d i DELETE body) = Json (JObject [(''ok'', JTrue)]) 200 \<and>
            snd (api_plant L clock d i DELETE body) = snd (delete_plant d i) \<and>
            i \<notin> set (plant_ids (snd (delete_plant d i)))) \<and>
         (bind_int i = Inl OverflowError \<longrightarrow>
            delete_plant d i = (ServerError OverflowError, d) \<and>
            api_plant L clock d i DELETE body = (ServerError OverflowError, d)) \<and>
         (bind_int i = Inr i \<or> bind_int i = Inl OverflowError)"
proof -
  from assms have own: "events_owned d" by (simp add: reachable_invariants)
  have missing: "delete_plant d i = (Redirect Index, d) \<and>
                 api_plant L clock d i DELETE body =
                   (Json (JObject [(''error'', JString ''not found'')]) 404, d)"
    if b: "bind_int i = Inr i" and none: "i \<notin> set (plant_ids d)"
  proof -
    from none have p: "\<forall>p \<in> set (plants d). plants_id p \<noteq> i"
      by (auto simp add: plant_ids_def)
    from own none have w: "\<forall>w \<in> set (water_logs d). sint (plant_id w) \<noteq> i"
      unfolding events_owned_def by metis
    from p have "filter (\<lambda>p. plants_id p \<noteq> i) (plants d) = plants d"
      by (simp add: filter_id_conv)
    moreover from w have "filter (\<lambda>w. sint (plant_id w) \<noteq> i) (water_logs d) = water_logs d"
      by (simp add: filter_id_conv)
    ultimately have page: "delete_plant d i = (Redirect Index, d)"
      using b by (simp add: delete_plant_def delete_from_water_logs_def delete_from_plants_def)
    from b none have "select_plant d i = Inr None" by (simp add: select_plant_None)
    then have "api_plant L clock d i DELETE body =
                 (Json (JObject [(''error'', JString ''not found'')]) 404, d)"
      by (simp add: api_plant_def)
    with page show ?thesis by simp
  qed
  have existing: "fst (delete_plant d i) = Redirect Index \<and>
                  fst (api_plant L clock d i DELETE body) = Json (JObject [(''ok'', JTrue)]) 200 \<and>
                  snd (api_plant L clock d i DELETE body) = snd (delete_plant d i) \<and>
                  i \<notin> set (plant_ids (snd (delete_plant d i)))"
    if b: "bind_int i = Inr i" and mem: "i \<in> set (plant_ids d)"
  proof -
    from select_plant_found [OF mem b] obtain row where "select_plant d i = Inr (Some row)" ..
    moreover have "i \<notin> plants_id ` {x \<in> set (plants d). plants_id x \<noteq> i}" by blast
    ultimately show ?thesis
      using b by (simp add: api_plant_def delete_plant_def plant_ids_def delete_fields)
  qed
  have unbound: "delete_plant d i = (ServerError OverflowError, d) \<and>
                 api_plant L clock d i DELETE body = (ServerError OverflowError, d)"
    if "bind_int i = Inl OverflowError"
    using that by (simp add: delete_plant_def api_plant_def select_plant_def)
  have "bind_int i = Inr i \<or> bind_int i = Inl OverflowError"
    by (simp add: bind_int_def)
  with missing existing unbound show ?thesis by blast
qed

text \<open>The store with the fern: no plant 5, a plant 1, and an identifier that cannot be
  bound.\<close>

theorem delete_missing_plant_witness:
  "reachable fern_db \<and> bind_int 5 = Inr 5 \<and> 5 \<notin> set (plant_ids fern_db) \<and>
   delete_plant fern_db 5 = (Redirect Index, fern_db) \<and>
   api_plant sample_lib next_day fern_db 5 DELETE no_body =
     (Json (JObject [(''error'', JString ''not found'')]) 404, fern_db) \<and>
   bind_int 1 = Inr 1 \<and> 1 \<in> set (plant_ids fern_db) \<and>
   fst (delete_plant fern_db 1) = Redirect Index \<and>
   fst (api_plant sample_lib next_day fern_db 1 DELETE no_body) =
     Json (JObject [(''ok'', JTrue)]) 200 \<and>
   1 \<notin> set (plant_ids (snd (delete_plant fern_db 1))) \<and>
   bind_int 9223372036854775809 = Inl OverflowError \<and>
   delete_plant fern_db 9223372036854775809 = (ServerError OverflowError, fern_db) \<and>
   api_plant sample_lib next_day fern_db 9223372036854775809 DELETE no_body =
     (ServerError OverflowError, fern_db)"
proof -
  have ids: "plant_ids fern_db = [1]"
    by (simp add: plant_ids_def fern_db_def fern_def)
  have b: "bind_int 5 = Inr 5" "bind_int 1 = Inr 1"
    "bind_int 9223372036854775809 = Inl OverflowError"
    by (simp_all add: bind_int_def)
  from delete_missing_plant [OF reachable_fern_db, of 5 sample_lib next_day no_body]
       delete_missing_plant [OF reachable_fern_db, of 1 sample_lib next_day no_body]
       delete_missing_plant [OF reachable_fern_db, of 9223372036854775809 sample_lib next_day
         no_body]
       ids b reachable_fern_db
  show ?thesis by simp
qed

subsection \<open>Creating a plant without a name\<close>

text \<open>Each of the 29 white space characters of Python is trimmed, the ideographic space
  of CJK text among them.\<close>

lemma strip_whitespace: "list_all (\<lambda>w. strip w = []) whitespace"
  by (simp add: strip_def strip_left.simps whitespace_def)

text \<open>
  C7. When the name of a create request is absent, or empty after trimming (the white
  space of \<open>str.strip\<close>, Unicode white space included), the page handler redirects to
  the dashboard with the store as it was, and the API handler answers 400 with the body
  \<open>{"error": "name required"}\<close> with the store as it was.
\<close>

theorem create_plant_empty_name:
  assumes "nm = None \<or> (\<exists>s. nm = Some s \<and> strip s = [])"
    and "f ''name'' = nm"
    and "map_of kvs ''name'' = map_option JStr nm"
  shows "create_plant L clock d f = (Redirect Index, d) \<and>
         api_plants L clock d POST (Some (JDict kvs)) =
           (Json (JObject [(''error'', JString ''name required'')]) 400, d)"
proof -
  from assms(1) have page: "strip (or_str nm '''') = []"
    by (auto simp add: or_str_def strip_plain)
  from assms(1) have api: "strip_val (or_val L (map_option JStr nm) (JStr '''')) = Inr []"
    by (auto simp add: or_val_def strip_plain)
  from page api assms(2,3) show ?thesis
    by (simp add: create_plant_def api_plants_def)
qed

text \<open>A name of three spaces, a name of one ideographic space, and no name at all.\<close>

theorem create_plant_empty_name_witness:
  "strip ''   '' = [] \<and>
   create_plant sample_lib next_day fern_db (map_of [(''name'', ''   '')]) =
     (Redirect Index, fern_db) \<and>
   api_plants sample_lib next_day fern_db POST (Some (JDict [(''name'', JStr ''   '')])) =
     (Json (JObject [(''error'', JString ''name required'')]) 400, fern_db) \<and>
   strip ideographic_space = [] \<and>
   create_plant sample_lib next_day fern_db (map_of [(''name'', ideographic_space)]) =
     (Redirect Index, fern_db) \<and>
   api_plants sample_lib next_day fern_db POST
       (Some (JDict [(''name'', JStr ideographic_space)])) =
     (Json (JObject [(''error'', JString ''name required'')]) 400, fern_db) \<and>
   create_plant sample_lib next_day fern_db no_form = (Redirect Index, fern_db) \<and>
   api_plants sample_lib next_day fern_db POST no_body =
     (Json (JObject [(''error'', JString ''name required'')]) 400, fern_db)"
proof -
  from create_plant_empty_name [of "Some ''   ''" "map_of [(''name'', ''   '')]"
         "[(''name'', JStr ''   '')]" sample_lib next_day fern_db]
       create_plant_empty_name [of "Some ideographic_space"
         "map_of [(''name'', ideographic_space)]"
         "[(''name'', JStr ideographic_space)]" sample_lib next_day fern_db]
       create_plant_empty_name [of None no_form "[]" sample_lib next_day fern_db]
       strip_plain
  show ?thesis by (simp add: no_form_def no_body_def)
qed

text \<open>In the API a name that is false in Python (\<open>null\<close>, \<open>false\<close>, 0, an empty list or
  object) counts as no name; a body that is not an object, and a name that is true and
  not a string, end the handler with AttributeError.\<close>

lemma api_plants_falsy_name:
  assumes "\<not> truthy L (map_of kvs ''name'')"
  shows "api_plants L clock d POST (Some (JDict kvs)) =
           (Json (JObject [(''error'', JString ''name required'')]) 400, d)"
  using assms
  by (cases "map_of kvs ''name''") (simp_all add: api_plants_def or_val_def strip_plain)

lemma api_plants_body_not_object:
  "api_plants L clock d POST (Some (JList xs)) = (ServerError AttributeError, d)"
  "api_plants L clock d POST (Some JNull) = (ServerError AttributeError, d)"
  "api_plants L clock d POST None = (Abort 400, d)"
  by (simp_all add: api_plants_def)

lemma api_plants_name_not_string:
  assumes "map_of kvs ''name'' = Some (JInt n)" and "n \<noteq> 0"
  shows "api_plants L clock d POST (Some (JDict kvs)) = (ServerError AttributeError, d)"
  using assms by (simp add: api_plants_def or_val_def)

subsection \<open>Logging a watering\<close>

lemma last_insert_water_log:
  "last (water_logs (insert_water_log d i w n)) =
     \<lparr>water_logs_id = next_rowid (water_logs_seq d) (map water_logs_id (water_logs d)),
      plant_id = word_of_int i, watered_at = w, note_col = n\<rparr>"
  "butlast (water_logs (insert_water_log d i w n)) = water_logs d"
  by (simp_all add: insert_water_log_fields)

text \<open>
  C6. A backdated log on an existing plant appends one event of that plant. When the
  date parses, its timestamp is the parsed value with the same clock reading (for a
  calendar date: its midnight) and the zone UTC; when the date is missing or does not
  parse, it is the current instant. An omitted or empty note is stored as \<open>backdated\<close>;
  log-now stores the empty note in that case.
\<close>

theorem log_water_backdate_stored:
  assumes "select_plant d i = Inr (Some row)"
  shows "fst (log_water_backdate L clock d i f) = Redirect (IndexDetail i) \<and>
         butlast (water_logs (snd (log_water_backdate L clock d i f))) = water_logs d \<and>
         sint (plant_id (last (water_logs (snd (log_water_backdate L clock d i f))))) = i \<and>
         (\<forall>s dt. f ''date'' = Some s \<and> fromisoformat L s = Inr dt \<longrightarrow>
            watered_at (last (water_logs (snd (log_water_backdate L clock d i f)))) =
              isoformat L \<lparr>wall = wall dt, utcoffset = Some 0\<rparr>) \<and>
         (f ''date'' = None \<or> (\<exists>s e. f ''date'' = Some s \<and> fromisoformat L s = Inl e) \<longrightarrow>
            watered_at (last (water_logs (snd (log_water_backdate L clock d i f)))) =
              now_iso L clock) \<and>
         (f ''note'' = None \<or> f ''note'' = Some [] \<longrightarrow>
            note_col (last (water_logs (snd (log_water_backdate L clock d i f)))) =
              Some ''backdated'') \<and>
         (\<forall>n. f ''note'' = Some n \<and> n \<noteq> [] \<longrightarrow>
            note_col (last (water_logs (snd (log_water_backdate L clock d i f)))) = Some n) \<and>
         (g ''note'' = None \<or> g ''note'' = Some [] \<longrightarrow>
            note_col (last (water_logs (snd (log_water L clock d i g)))) = Some [])"
proof -
  have utc: "\<And>dt::datetime. replace_tzinfo_utc dt = \<lparr>wall = wall dt, utcoffset = Some 0\<rparr>"
    by (simp add: replace_tzinfo_utc_def)
  have dated: "log_water_backdate L clock d i f =
      (Redirect (IndexDetail i),
       insert_water_log d i
         (case f ''date'' of
            None \<Rightarrow> now_iso L clock
          | Some s \<Rightarrow> (case fromisoformat L s of
                         Inl e \<Rightarrow> now_iso L clock
                       | Inr dt \<Rightarrow> isoformat L \<lparr>wall = wall dt, utcoffset = Some 0\<rparr>))
         (Some (or_str (f ''note'') ''backdated'')))"
    using assms by (simp add: log_water_backdate_def utc split: option.split sum.split)
  have undated: "log_water L clock d i g =
      (Redirect (IndexDetail i),
       insert_water_log d i (or_str (g ''watered_at'') (now_iso L clock))
         (Some (or_str (g ''note'') [])))"
    using assms by (simp add: log_water_def try_parse_iso_def)
  from select_plant_Some [OF assms] have "bind_int i = Inr i" by simp
  then have owner: "sint (word_of_int i :: 64 word) = i" by (rule sint_bound)
  show ?thesis
    by (auto simp add: dated undated last_insert_water_log or_str_def owner)
qed

text \<open>The fern, backdated to 2024-01-05 without a note; backdated without a date;
  watered now without a note.\<close>

theorem log_water_backdate_stored_witness:
  "select_plant fern_db 1 = Inr (Some fern) \<and>
   water_logs (snd (log_water_backdate sample_lib next_day fern_db 1
                      (map_of [(''date'', ''2024-01-05'')]))) =
     [\<lparr>water_logs_id = 1, plant_id = 1, watered_at = ''2024-01-05T00:00:00+00:00'',
       note_col = Some ''backdated''\<rparr>] \<and>
   water_logs (snd (log_water_backdate sample_lib next_day fern_db 1 no_form)) =
     [\<lparr>water_logs_id = 1, plant_id = 1, watered_at = ''2024-01-02T00:00:00+00:00'',
       note_col = Some ''backdated''\<rparr>] \<and>
   water_logs (snd (log_water sample_lib next_day fern_db 1 no_form)) =
     [\<lparr>water_logs_id = 1, plant_id = 1, watered_at = ''2024-01-02T00:00:00+00:00'',
       note_col = Some ''''\<rparr>]"
proof -
  have s1: "select_plant fern_db 1 = Inr (Some fern)"
    by (simp add: select_plant_def bind_int_def fern_db_def fern_def)
  have empty: "water_logs fern_db = []" by (simp add: fern_db_def)
  have p: "fromisoformat sample_lib ''2024-01-05'' =
             Inr \<lparr>wall = 63840009600000000, utcoffset = None\<rparr>"
    by (simp add: sample_fromisoformat sample_stamps_def)
  have i: "isoformat sample_lib \<lparr>wall = 63840009600000000, utcoffset = Some 0\<rparr> =
             ''2024-01-05T00:00:00+00:00''"
    by (simp add: sample_isoformat sample_formats_def)
  let ?dated = "map_of [(''date'', ''2024-01-05'')] :: form"
  have one: "\<And>ws::water_log list. butlast ws = [] \<Longrightarrow> ws \<noteq> [] \<Longrightarrow> ws = [last ws]"
    by (metis append_butlast_last_id append_Nil)
  have ne: "\<And>f. water_logs (snd (log_water_backdate sample_lib next_day fern_db 1 f)) \<noteq> []"
    by (simp add: log_water_backdate_def s1 insert_water_log_fields Let_def)
  have ne': "water_logs (snd (log_water sample_lib next_day fern_db 1 no_form)) \<noteq> []"
    by (simp add: log_water_def s1 insert_water_log_fields Let_def)
  have id1: "\<And>w n. water_logs_id (last (water_logs (insert_water_log fern_db 1 w n))) = 1"
    by (simp add: last_insert_water_log next_rowid_def fern_db_def)
  have ids: "water_logs_id (last (water_logs (snd (log_water_backdate sample_lib next_day fern_db 1 ?dated)))) = 1"
    "water_logs_id (last (water_logs (snd (log_water_backdate sample_lib next_day fern_db 1 no_form)))) = 1"
    "water_logs_id (last (water_logs (snd (log_water sample_lib next_day fern_db 1 no_form)))) = 1"
    by (simp_all add: log_water_backdate_def log_water_def s1 id1 Let_def)
  have w1: "w = 1" if "sint w = 1" for w :: "64 word"
  proof -
    from that have "word_of_int (sint w) = (word_of_int 1 :: 64 word)" by simp
    then show ?thesis by simp
  qed
  note t1 = log_water_backdate_stored [OF s1, of sample_lib next_day ?dated no_form]
  note t2 = log_water_backdate_stored [OF s1, of sample_lib next_day no_form no_form]
  have a: "last (water_logs (snd (log_water_backdate sample_lib next_day fern_db 1 ?dated))) =
             \<lparr>water_logs_id = 1, plant_id = 1, watered_at = ''2024-01-05T00:00:00+00:00'',
              note_col = Some ''backdated''\<rparr>"
    using t1 ids(1) p i by (simp add: water_log.equality w1)
  have b: "last (water_logs (snd (log_water_backdate sample_lib next_day fern_db 1 no_form))) =
             \<lparr>water_logs_id = 1, plant_id = 1, watered_at = ''2024-01-02T00:00:00+00:00'',
              note_col = Some ''backdated''\<rparr>"
    using t2 ids(2) by (simp add: water_log.equality no_form_def sample_now_iso_next w1)
  have c: "last (water_logs (snd (log_water sample_lib next_day fern_db 1 no_form))) =
             \<lparr>water_logs_id = 1, plant_id = 1, watered_at = ''2024-01-02T00:00:00+00:00'',
              note_col = Some ''''\<rparr>"
    using t2 ids(3)
    by (simp add: water_log.equality no_form_def log_water_def s1 try_parse_iso_def
        or_str_def sample_now_iso_next last_insert_water_log w1)
  from t1 empty have a': "butlast (water_logs (snd (log_water_backdate sample_lib next_day fern_db 1 ?dated))) = []"
    by simp
  from t2 empty have b': "butlast (water_logs (snd (log_water_backdate sample_lib next_day fern_db 1 no_form))) = []"
    by simp
  have c': "butlast (water_logs (snd (log_water sample_lib next_day fern_db 1 no_form))) = []"
    by (simp add: log_water_def s1 last_insert_water_log empty Let_def)
  from one [OF a' ne] one [OF b' ne] one [OF c' ne'] a b c s1 show ?thesis by simp
qed

text \<open>What log-now stores: the timestamp of the request when there is a non-empty one,
  whether it parses or not, and the current instant otherwise.\<close>

lemma log_water_stored:
  assumes "select_plant d i = Inr (Some row)"
  shows "watered_at (last (water_logs (snd (log_water L clock d i f)))) =
           or_str (f ''watered_at'') (now_iso L clock)"
  using assms
  by (simp add: log_water_def try_parse_iso_def last_insert_water_log)

lemma api_log_water_stored:
  assumes "select_plant d i = Inr (Some row)"
    and "map_of kvs ''watered_at'' = Some (JStr s)" and "s \<noteq> []"
    and "map_of kvs ''note'' = None"
  shows "api_log_water L clock d i (JsonPayload (Some (JDict kvs))) =
           (Json (JObject [(''ok'', JTrue)]) 200, insert_water_log d i s (Some []))"
  using assms
  by (simp add: api_log_water_def try_parse_iso_def or_val_def bind_text_not_null_def)

text \<open>A timestamp that is a JSON list is not a parse failure that is recovered: the
  parser refuses it, \<open>parse_iso\<close> returns \<open>None\<close>, and the INSERT cannot bind the list.\<close>

lemma api_log_water_list:
  assumes "select_plant d i = Inr (Some row)"
    and "map_of kvs ''watered_at'' = Some (JList (x # xs))"
  shows "api_log_water L clock d i (JsonPayload (Some (JDict kvs))) =
           (ServerError ProgrammingError, d)"
  using assms
  by (simp add: api_log_water_def try_parse_iso_def or_val_def bind_text_not_null_def)

text \<open>
  C3. The fern is watered with the timestamp \<open>not-a-date\<close>, which does not parse: the page
  handler and the API handler store that text as the timestamp of the event, not the
  current instant (2024-01-02T00:00:00+00:00). Neither handler raises; without a
  timestamp both store the current instant.
\<close>

theorem log_water_stores_unparsable:
  "parse_iso sample_lib ''not-a-date'' = None \<and>
   log_water sample_lib next_day fern_db 1 (map_of [(''watered_at'', ''not-a-date'')]) =
     (Redirect (IndexDetail 1),
      fern_db\<lparr>water_logs := [\<lparr>water_logs_id = 1, plant_id = 1, watered_at = ''not-a-date'',
                                note_col = Some ''''\<rparr>],
              water_logs_seq := 1\<rparr>) \<and>
   api_log_water sample_lib next_day fern_db 1
       (JsonPayload (Some (JDict [(''watered_at'', JStr ''not-a-date'')]))) =
     (Json (JObject [(''ok'', JTrue)]) 200,
      fern_db\<lparr>water_logs := [\<lparr>water_logs_id = 1, plant_id = 1, watered_at = ''not-a-date'',
                                note_col = Some ''''\<rparr>],
              water_logs_seq := 1\<rparr>) \<and>
   api_log_water sample_lib next_day fern_db 1
       (FormPayload (map_of [(''watered_at'', ''not-a-date'')])) =
     (Json (JObject [(''ok'', JTrue)]) 200,
      fern_db\<lparr>water_logs := [\<lparr>water_logs_id = 1, plant_id = 1, watered_at = ''not-a-date'',
                                note_col = Some ''''\<rparr>],
              water_logs_seq := 1\<rparr>) \<and>
   log_water sample_lib next_day fern_db 1 no_form =
     (Redirect (IndexDetail 1),
      fern_db\<lparr>water_logs := [\<lparr>water_logs_id = 1, plant_id = 1,
                                watered_at = ''2024-01-02T00:00:00+00:00'',
                                note_col = Some ''''\<rparr>],
              water_logs_seq := 1\<rparr>) \<and>
   api_log_water sample_lib next_day fern_db 1 (JsonPayload no_body) =
     (Json (JObject [(''ok'', JTrue)]) 200,
      fern_db\<lparr>water_logs := [\<lparr>water_logs_id = 1, plant_id = 1,
                                watered_at = ''2024-01-02T00:00:00+00:00'',
                                note_col = Some ''''\<rparr>],
              water_logs_seq := 1\<rparr>)"
proof -
  have s1: "select_plant fern_db 1 = Inr (Some fern)"
    by (simp add: select_plant_def bind_int_def fern_db_def fern_def)
  have p: "parse_iso sample_lib ''not-a-date'' = None"
    by (simp add: sample_parse_iso sample_stamps_def)
  have ins: "\<And>w n. insert_water_log fern_db 1 w n =
      fern_db\<lparr>water_logs := [\<lparr>water_logs_id = 1, plant_id = 1, watered_at = w, note_col = n\<rparr>],
              water_logs_seq := 1\<rparr>"
    by (simp add: insert_water_log_def next_rowid_def fern_db_def)
  show ?thesis
    by (simp add: p log_water_def api_log_water_def s1 try_parse_iso_def or_str_def or_val_def
        bind_text_not_null_def no_form_def no_body_def sample_now_iso_next ins)
qed

subsection \<open>Updating a plant\<close>

text \<open>
  C4. The fern is updated through the page form with an empty name: the stored name is
  empty afterwards. Through the API, a name of three spaces is stored as the empty name
  too; an absent or empty name there keeps the stored one.
\<close>

theorem update_plant_stores_empty_name:
  "map name (plants fern_db) = [''Fern''] \<and>
   fst (update_plant sample_lib next_day fern_db 1 (map_of [(''name'', '''')])) =
     Redirect (IndexDetail 1) \<and>
   map name (plants (snd (update_plant sample_lib next_day fern_db 1
                            (map_of [(''name'', '''')])))) = [''''] \<and>
   map name (plants (snd (update_plant sample_lib next_day fern_db 1 no_form))) = [''''] \<and>
   fst (api_plant sample_lib next_day fern_db 1 PUT (Some (JDict [(''name'', JStr ''   '')]))) =
     Json (JObject [(''ok'', JTrue)]) 200 \<and>
   map name (plants (snd (api_plant sample_lib next_day fern_db 1 PUT
                            (Some (JDict [(''name'', JStr ''   '')]))))) = [''''] \<and>
   map name (plants (snd (api_plant sample_lib next_day fern_db 1 PUT
                            (Some (JDict [(''name'', JStr '''')]))))) = [''Fern''] \<and>
   map name (plants (snd (api_plant sample_lib next_day fern_db 1 PUT no_body))) = [''Fern'']"
proof -
  have s1: "select_plant fern_db 1 = Inr (Some fern)"
    by (simp add: select_plant_def bind_int_def fern_db_def fern_def)
  have upd: "\<And>n sp loc k nts u.
      map name (plants (update_plant_row fern_db 1 n sp loc k nts u)) = [n]"
    by (simp add: update_plant_row_def fern_db_def fern_def)
  have nm: "name fern = ''Fern''" "water_interval_days fern = 3"
    by (simp_all add: fern_def)
  have n0: "map name (plants fern_db) = [''Fern'']" by (simp add: fern_db_def fern_def)
  have k: "\<And>L. request_interval L None 7 7 = 7" "\<And>L. request_interval L None 3 3 = 3"
    by (simp_all add: request_interval_def or_val_def)
  have b: "bind_int 7 = Inr 7" "bind_int 3 = Inr 3" by (simp_all add: bind_int_def)
  show ?thesis
    by (simp add: n0 update_plant_def api_plant_def s1 upd strip_plain nm k b or_str_def
        or_val_def get_text_default_def no_form_def no_body_def Let_def)
qed

text \<open>What holds of the names: creating keeps every name non-empty, on the page and in
  the API; the page update stores the trimmed name of the form, or the empty name when
  the form has none; the API update stores the trimmed name of the body, or the trimmed
  stored name when the body has none or an empty one.\<close>

lemma names_nonempty_insert_plant:
  "names_nonempty d \<Longrightarrow> n \<noteq> [] \<Longrightarrow> names_nonempty (insert_plant d n sp loc k nts c u)"
  by (simp add: names_nonempty_def insert_plant_fields)

lemma create_plant_names:
  "names_nonempty d \<Longrightarrow> names_nonempty (snd (create_plant L clock d f))"
  by (simp add: create_plant_def Let_def names_nonempty_insert_plant split: sum.split)

lemma api_plants_names:
  "names_nonempty d \<Longrightarrow> names_nonempty (snd (api_plants L clock d m body))"
  by (simp add: api_plants_def Let_def names_nonempty_insert_plant
      split: sum.split option.split)

lemma update_plant_row_name:
  "p \<in> set (plants (update_plant_row d i n sp loc k nts u)) \<Longrightarrow> plants_id p = i \<Longrightarrow>
   name p = n"
proof -
  assume mem: "p \<in> set (plants (update_plant_row d i n sp loc k nts u))"
    and pid: "plants_id p = i"
  define g where "g = (\<lambda>q::plant. if plants_id q = i
                 then q\<lparr>name := n, species := sp, location := loc,
                        water_interval_days := k, notes_col := nts, updated_at := u\<rparr>
                 else q)"
  have "plants (update_plant_row d i n sp loc k nts u) = map g (plants d)"
    by (simp add: update_plant_row_def g_def)
  with mem have "p \<in> g ` set (plants d)" by simp
  then obtain q where q: "q \<in> set (plants d)" and p: "p = g q" by (rule imageE)
  show "name p = n"
  proof (cases "plants_id q = i")
    case True
    then have "g q = q\<lparr>name := n, species := sp, location := loc,
                        water_interval_days := k, notes_col := nts, updated_at := u\<rparr>"
      by (simp add: g_def)
    then have "name (g q) = n" by simp
    with p show ?thesis by simp
  next
    case False
    then have "g q = q" by (simp add: g_def)
    with p have "plants_id p = plants_id q" by simp
    with False pid show ?thesis by simp
  qed
qed

lemma update_plant_name:
  assumes "update_plant L clock d i f = (Redirect t, d')"
    and "p \<in> set (plants d')" and "plants_id p = i"
  shows "name p = strip (or_str (f ''name'') [])"
proof -
  from assms(1) obtain sp loc k nts u where
    "d' = update_plant_row d i (strip (or_str (f ''name'') [])) sp loc k nts u"
    by (auto simp add: update_plant_def Let_def split: sum.splits option.splits)
  with assms(2,3) show ?thesis by (simp add: update_plant_row_name)
qed

lemma api_plant_put_name:
  assumes "api_plant L clock d i PUT (Some (JDict kvs)) = (Json j 200, d')"
    and "select_plant d i = Inr (Some row)"
    and "map_of kvs ''name'' = None \<or> map_of kvs ''name'' = Some (JStr [])"
    and "p \<in> set (plants d')" and "plants_id p = i"
  shows "name p = strip (name row)"
proof -
  from assms(3) have "or_val L (map_of kvs ''name'') (JStr (name row)) = JStr (name row)"
    by (auto simp add: or_val_def)
  with assms(1,2) obtain sp loc k nts u where
    "d' = update_plant_row d i (strip (name row)) sp loc k nts u"
    by (auto simp add: api_plant_def Let_def split: sum.splits option.splits)
  with assms(4,5) show ?thesis by (simp add: update_plant_row_name)
qed

subsection \<open>Listing the plants\<close>

lemma dash_decorate_row:
  assumes "dash_decorate L clock d r = Inr p"
  shows "name (dash_row p) = name r \<and> plants_id (dash_row p) = plants_id r"
  using assms
  by (auto simp add: dash_decorate_def Let_def split: sum.splits option.splits if_splits)

lemma dash_decorate_all_rows:
  "dash_decorate_all L clock d rows = Inr ps \<Longrightarrow>
   map (\<lambda>p. name (dash_row p)) ps = map name rows \<and>
   map (\<lambda>p. plants_id (dash_row p)) ps = map plants_id rows"
proof (induction rows arbitrary: ps)
  case Nil
  then show ?case by simp
next
  case (Cons r rows)
  from Cons.prems obtain p out where p: "dash_decorate L clock d r = Inr p"
    and out: "dash_decorate_all L clock d rows = Inr out" and ps: "ps = p # out"
    by (auto split: sum.splits)
  from Cons.IH [OF out] dash_decorate_row [OF p] ps show ?case by simp
qed

lemma filter_matches_filter:
  "filter_matches L clock q shw ps = Inr out \<Longrightarrow>
   out = filter (\<lambda>p. matches L clock q shw p = Inr True) ps"
proof (induction ps arbitrary: out)
  case Nil
  then show ?case by simp
next
  case (Cons p ps)
  from Cons.prems obtain b rest where b: "matches L clock q shw p = Inr b"
    and rest: "filter_matches L clock q shw ps = Inr rest"
    and out: "out = (if b then p # rest else rest)"
    by (auto split: sum.splits)
  from Cons.IH [OF rest] b out show ?case by simp
qed

lemma filter_matches_all: "filter_matches L clock [] ''all'' ps = Inr ps"
  by (induction ps) (simp_all add: matches_def)

text \<open>The list of the dashboard is ordered by name without regard to the case of the
  ASCII letters, under every filter; without a filter it has every plant.\<close>

lemma index_sorted_nocase:
  assumes "index L clock d q_arg show_arg = Inr pg"
  shows "sorted (map (\<lambda>p. nocase (name (dash_row p))) (page_plants pg))"
proof -
  let ?rows = "sort_key (\<lambda>p. nocase (name p)) (plants d)"
  from assms obtain ps where ps: "dash_decorate_all L clock d ?rows = Inr ps"
    and out: "filter_matches L clock (strip (or_str q_arg [])) (or_str show_arg ''all'') ps =
                Inr (page_plants pg)"
    by (auto simp add: index_def Let_def split: sum.splits)
  from dash_decorate_all_rows [OF ps]
  have "map nocase (map (\<lambda>p. name (dash_row p)) ps) = map nocase (map name ?rows)"
    by (simp only:)
  then have "map (\<lambda>p. nocase (name (dash_row p))) ps = map (\<lambda>p. nocase (name p)) ?rows"
    by (simp add: o_def)
  then have "sorted (map (\<lambda>p. nocase (name (dash_row p))) ps)" by simp
  with filter_matches_filter [OF out] show ?thesis
    by (simp add: sorted_filter)
qed

lemma index_all_plants:
  assumes "index L clock d None None = Inr pg"
  shows "map (\<lambda>p. plants_id (dash_row p)) (page_plants pg) =
           map plants_id (sort_key (\<lambda>p. nocase (name p)) (plants d))"
proof -
  let ?rows = "sort_key (\<lambda>p. nocase (name p)) (plants d)"
  from assms obtain ps where ps: "dash_decorate_all L clock d ?rows = Inr ps"
    and out: "filter_matches L clock [] ''all'' ps = Inr (page_plants pg)"
    by (auto simp add: index_def Let_def or_str_def strip_plain split: sum.splits)
  from out have "page_plants pg = ps" by (simp add: filter_matches_all)
  with dash_decorate_all_rows [OF ps] show ?thesis by simp
qed

text \<open>The list of the API is in the bytewise order of the names.\<close>

lemma api_decorate_all_rows:
  "api_decorate_all L d rows = Inr out \<Longrightarrow> map api_row out = rows"
proof (induction rows arbitrary: out)
  case Nil
  then show ?case by simp
next
  case (Cons r rows)
  from Cons.prems obtain p rest where p: "api_decorate L d r = Inr p"
    and rest: "api_decorate_all L d rows = Inr rest" and out: "out = p # rest"
    by (auto split: sum.splits)
  from p have "api_row p = r" by (auto simp add: api_decorate_def split: sum.splits)
  with Cons.IH [OF rest] out show ?case by simp
qed

lemma api_plants_sorted_binary:
  assumes "fst (api_plants L clock d GET body) = JsonPlants out"
  shows "map api_row out = sort_key name (plants d) \<and> sorted (map (\<lambda>p. name (api_row p)) out)"
proof -
  from assms have "api_decorate_all L d (sort_key name (plants d)) = Inr out"
    by (auto simp add: api_plants_def split: sum.splits)
  then have rows: "map api_row out = sort_key name (plants d)"
    by (rule api_decorate_all_rows)
  have "map name (map api_row out) = map name (sort_key name (plants d))"
    by (simp only: rows)
  then have "map (\<lambda>p. name (api_row p)) out = map name (sort_key name (plants d))"
    by (simp add: o_def)
  with rows show ?thesis by simp
qed

text \<open>
  C9. The store has the plants \<open>apple\<close> and \<open>Zebra\<close>, neither watered. Without regard to
  case \<open>apple\<close> comes first, and the dashboard lists them so; the list of the API has
  \<open>Zebra\<close> first. The entries of the API carry the next watering (creation plus seven
  days); the entries of the dashboard carry none, since the next watering is computed
  there from the display form of the creation timestamp.
\<close>

theorem api_plants_order_is_binary:
  "nocase ''apple'' < nocase ''Zebra'' \<and>
   api_plants sample_lib next_day orchard_db GET no_body =
     (JsonPlants
        [\<lparr>api_row = zebra, last_watered = None,
          next_watering = Some ''2024-01-08T00:00:00+00:00''\<rparr>,
         \<lparr>api_row = apple, last_watered = None,
          next_watering = Some ''2024-01-08T00:00:00+00:00''\<rparr>],
      orchard_db) \<and>
   map_sum id (\<lambda>pg. map (\<lambda>p. (name (dash_row p), p_next_watering p)) (page_plants pg))
     (index sample_lib next_day orchard_db None None) =
     Inr [(''apple'', None), (''Zebra'', None)]"
proof -
  have nc: "nocase ''apple'' = ''apple''" "nocase ''Zebra'' = ''zebra''"
    by (simp_all add: nocase_def char_of_def bit_iff_odd)
  have names: "name apple = ''apple''" "name zebra = ''Zebra''"
    by (simp_all add: apple_def zebra_def fern_def)
  have rows_api: "sort_key name (plants orchard_db) = [zebra, apple]"
    by (simp add: orchard_db_def names)
  have rows_dash: "sort_key (\<lambda>p. nocase (name p)) (plants orchard_db) = [apple, zebra]"
    by (simp add: orchard_db_def names nc)
  have nolast: "\<And>i. get_last_watered orchard_db i = None"
    by (simp add: get_last_watered_def orchard_db_def)
  have cr: "created_at apple = ''2024-01-01T00:00:00+00:00''"
    "created_at zebra = ''2024-01-01T00:00:00+00:00''"
    "water_interval_days apple = 7" "water_interval_days zebra = 7"
    by (simp_all add: apple_def zebra_def fern_def)
  have p0: "parse_iso sample_lib ''2024-01-01T00:00:00+00:00'' =
              Some \<lparr>wall = 63839664000000000, utcoffset = Some 0\<rparr>"
    by (simp add: sample_parse_iso sample_stamps_def)
  have pd: "parse_iso sample_lib ''Jan 01, 2024'' = None"
    by (simp add: sample_parse_iso sample_stamps_def)
  have day: "\<And>x. strftime_day sample_lib x = ''Jan 01, 2024''"
    by (simp add: sample_lib_def)
  have i8: "isoformat sample_lib \<lparr>wall = 63840268800000000, utcoffset = Some 0\<rparr> =
              ''2024-01-08T00:00:00+00:00''"
    by (simp add: sample_isoformat sample_formats_def)
  have nxt: "compute_next_watering sample_lib orchard_db apple =
               Inr (Some ''2024-01-08T00:00:00+00:00'')"
    "compute_next_watering sample_lib orchard_db zebra =
               Inr (Some ''2024-01-08T00:00:00+00:00'')"
    by (simp_all add: compute_next_watering_def nolast cr p0 timedelta_days_def dt_add_def
        us_per_day_def wall_limit_def i8)
  have shown: "\<And>r. compute_next_watering sample_lib orchard_db
                      (r\<lparr>created_at := ''Jan 01, 2024''\<rparr>) = Inr None"
    by (simp add: compute_next_watering_def nolast pd)
  have api: "api_plants sample_lib next_day orchard_db GET no_body =
     (JsonPlants
        [\<lparr>api_row = zebra, last_watered = None,
          next_watering = Some ''2024-01-08T00:00:00+00:00''\<rparr>,
         \<lparr>api_row = apple, last_watered = None,
          next_watering = Some ''2024-01-08T00:00:00+00:00''\<rparr>],
      orchard_db)"
    by (simp add: api_plants_def rows_api api_decorate_def nxt nolast)
  have dash: "\<And>r. created_at r = ''2024-01-01T00:00:00+00:00'' \<Longrightarrow>
      dash_decorate sample_lib next_day orchard_db r =
        Inr \<lparr>dash_row = r\<lparr>created_at := ''Jan 01, 2024''\<rparr>, last_watered_display = None,
             p_next_watering = None, next_watering_dt = None, next_due_human = []\<rparr>"
    by (simp add: dash_decorate_def nolast parse_if_def p0 day shown)
  have idx: "map_sum id (\<lambda>pg. map (\<lambda>p. (name (dash_row p), p_next_watering p)) (page_plants pg))
     (index sample_lib next_day orchard_db None None) =
     Inr [(''apple'', None), (''Zebra'', None)]"
    by (simp add: index_def rows_dash dash cr or_str_def strip_plain matches_def names)
  have "nocase ''apple'' < nocase ''Zebra''" by (simp add: nc)
  with api idx show ?thesis by simp
qed


end
